theory Spec2Isabelle
  imports Main "HOL-Library.Word" "HOL-Library.Signed_Division"
begin

section \<open>The logical column codec: choice of the compression strategy\<close>

text \<open>
  \<^verbatim>\<open>fdsWriteLogicalVec_v10\<close> (logical\_v10.cpp) builds a compressor object from the
  compression level and hands the vector to one of the two block streamers. The streamers
  and the compressor classes are declared in headers that are not part of the sources at
  hand, so the model records the call that is made: which streamer, with which element
  size, block size and compressor object.
\<close>

datatype CompAlgo = LOGIC64 | LZ4_LOGIC64 | ZSTD_LOGIC64

datatype Compressor =
    FixedRatioCompressor CompAlgo
  | SingleCompressor CompAlgo int
  | StreamCompositeCompressor Compressor Compressor int

text \<open>
  A call of a block streamer: the number of elements, the element size in bytes, the
  compressor and the block size in elements. For the compressed streamer the value given to
  \<^verbatim>\<open>CompressBufferSize\<close> before the call is recorded too.
\<close>

datatype stream_call =
    StreamUncompressed_v2 nat nat nat Compressor
  | Streamcompressed_v2 nat nat Compressor nat nat
  | NoStream

definition BLOCKSIZE_LOGICAL :: nat where
  "BLOCKSIZE_LOGICAL = 4096"

text \<open>C's integer division truncates towards zero: \<open>sdiv\<close> on \<open>int\<close>.\<close>

definition fdsWriteLogicalVec_v10 :: "nat \<Rightarrow> int \<Rightarrow> stream_call" where
  "fdsWriteLogicalVec_v10 nrOfLogicals compression =
     (if compression = 0 then
        StreamUncompressed_v2 nrOfLogicals 4 BLOCKSIZE_LOGICAL (FixedRatioCompressor LOGIC64)
      else
        let blockSize = 4 * BLOCKSIZE_LOGICAL in
        if compression \<le> 50 then
          Streamcompressed_v2 nrOfLogicals 4
            (StreamCompositeCompressor (SingleCompressor LOGIC64 0)
               (SingleCompressor LZ4_LOGIC64 100) (2 * compression))
            BLOCKSIZE_LOGICAL blockSize
        else if compression \<le> 100 then
          Streamcompressed_v2 nrOfLogicals 4
            (StreamCompositeCompressor (SingleCompressor LZ4_LOGIC64 100)
               (SingleCompressor ZSTD_LOGIC64 (30 + (7 * (compression - 50)) sdiv 5))
               (2 * (compression - 50)))
            BLOCKSIZE_LOGICAL blockSize
        else NoStream)"


section \<open>Bytes, buffers and streams\<close>

text \<open>
  The table header is assembled in a \<^verbatim>\<open>char\<close> buffer through pointers cast to the field
  types, and written to the file as it lies in memory. All fields are little-endian. A field
  value is a natural number below \<open>256 ^ size\<close>; a signed field holds the two's complement
  of its value.
\<close>

type_synonym byte = "8 word"

fun le_bytes :: "nat \<Rightarrow> nat \<Rightarrow> byte list" where
  "le_bytes 0 v = []"
| "le_bytes (Suc n) v = of_nat (v mod 256) # le_bytes n (v div 256)"

fun le_nat :: "byte list \<Rightarrow> nat" where
  "le_nat [] = 0"
| "le_nat (b # bs) = unat b + 256 * le_nat bs"

text \<open>The bit pattern of a C \<^verbatim>\<open>int\<close> (32 bits) and of a \<^verbatim>\<open>short\<close> (16 bits), and back.\<close>

definition u32_of_int :: "int \<Rightarrow> nat" where
  "u32_of_int x = nat (x mod 2 ^ 32)"

definition int_of_u32 :: "nat \<Rightarrow> int" where
  "int_of_u32 n = (if n mod 2 ^ 32 < 2 ^ 31 then int (n mod 2 ^ 32) else int (n mod 2 ^ 32) - 2 ^ 32)"

definition int_of_u16 :: "nat \<Rightarrow> int" where
  "int_of_u16 n = (if n mod 2 ^ 16 < 2 ^ 15 then int (n mod 2 ^ 16) else int (n mod 2 ^ 16) - 2 ^ 16)"

text \<open>
  \<open>poke\<close> stores bytes into a buffer at an offset, \<open>peek\<close> reads a range of it. Every
  store of the writer lies inside the buffer it allocated; \<open>poke\<close> leaves the length of
  the buffer as it is.
\<close>

definition poke :: "byte list \<Rightarrow> nat \<Rightarrow> byte list \<Rightarrow> byte list" where
  "poke buf off bs =
     map (\<lambda>i. if off \<le> i \<and> i < off + length bs then bs ! (i - off) else buf ! i) [0..<length buf]"

definition peek :: "byte list \<Rightarrow> nat \<Rightarrow> nat \<Rightarrow> byte list" where
  "peek buf off n = take n (drop off buf)"

definition u_at :: "byte list \<Rightarrow> nat \<Rightarrow> nat \<Rightarrow> nat" where
  "u_at buf off n = le_nat (peek buf off n)"

text \<open>
  An output file stream: the bytes of the file and the put position. A write overwrites from
  the put position on and extends the file where it has to (a gap left by a seek past the end
  reads as zeros). Failures of the device are not modelled: the writer never tests the stream
  after it is open.
\<close>

record ofstream =
  content :: "byte list"
  ppos :: nat

definition write_at :: "byte list \<Rightarrow> nat \<Rightarrow> byte list \<Rightarrow> byte list" where
  "write_at f p bs = take p (f @ replicate (p - length f) 0) @ bs @ drop (p + length bs) f"

definition owrite :: "ofstream \<Rightarrow> byte list \<Rightarrow> ofstream" where
  "owrite s bs = \<lparr>content = write_at (content s) (ppos s) bs, ppos = ppos s + length bs\<rparr>"

definition seekp :: "ofstream \<Rightarrow> nat \<Rightarrow> ofstream" where
  "seekp s p = s\<lparr>ppos := p\<rparr>"

definition tellp :: "ofstream \<Rightarrow> nat" where
  "tellp s = ppos s"


section \<open>Errors\<close>

text \<open>
  One constructor for each message the sources pass to \<^verbatim>\<open>Rf_error\<close>, and four more.
  \<open>CodecError\<close> is an error raised inside a column decoder. \<open>NegativeLength\<close> is R's
  own error for an allocation of negative length, \<open>BadAlloc\<close> the C++ exception for an
  array of a size that cannot be allocated, and \<open>Undefined\<close> marks a run that reads or
  writes memory outside an array, or overflows an \<^verbatim>\<open>int\<close>, where C++ defines no behaviour.
\<close>

datatype fst_error =
    BadCompression          \<comment> \<open>Parameter compression should be an integer value between 0 and 100\<close>
  | NoColumns               \<comment> \<open>Your dataset needs at least one column.\<close>
  | NoData                  \<comment> \<open>The dataset contains no data.\<close>
  | CreateError             \<comment> \<open>There was an error creating the file. Please check for a correct filename.\<close>
  | UnknownColumnType       \<comment> \<open>Unknown type found in column.\<close>
  | OpenError               \<comment> \<open>There was an error opening the fst file, please check for a correct path.\<close>
  | OpenErrorLegacy         \<comment> \<open>There was an error opening the fst file. Please check for a correct filename.\<close>
  | DamagedHeader           \<comment> \<open>Error reading file header, your fst file is incomplete or damaged.\<close>
  | NewerVersion            \<comment> \<open>Incompatible fst file: file was created by a newer version of the fst package.\<close>
  | MultipleChunks          \<comment> \<open>Multiple chunk read not implemented yet.\<close>
  | ColumnNotFound          \<comment> \<open>Selected column not found.\<close>
  | FromRowNotPositive      \<comment> \<open>Parameter fromRow should have a positive value.\<close>
  | RowOutOfRange           \<comment> \<open>Row selection is out of range.\<close>
  | LastRowBeforeFromRow    \<comment> \<open>Parameter 'lastRow' should be equal to or larger than parameter 'fromRow'.\<close>
  | ColumnOutOfRange        \<comment> \<open>Column selection is out of range.\<close>
  | UnrecognisedFile        \<comment> \<open>Unrecognised file type, are you sure this is a fst file?\<close>
  | LegacyHeaderError       \<comment> \<open>Error reading file header, are you sure this is a fst file?\<close>
  | LegacyBlockPosError     \<comment> \<open>Error reading file header (blockPos), are you sure this is a fst file?\<close>
  | CodecError
  | NegativeLength
  | BadAlloc
  | Undefined


section \<open>The table writer\<close>

text \<open>
  A column vector as \<^verbatim>\<open>fstStore\<close> sees it: \<^verbatim>\<open>TYPEOF\<close>, \<^verbatim>\<open>Rf_isFactor\<close> and
  \<^verbatim>\<open>LENGTH\<close> (here \<open>Rf_length\<close>, R's function of the same meaning, since
  \<open>LENGTH\<close> is taken by the word library). Doubles are kept as their 64-bit patterns.
  \<open>OTHERSXP\<close> stands for a vector of any other R type, of the given length.
\<close>

datatype SEXP =
    STRSXP "string list"
  | INTSXP "int list"
  | FACTOR "string list" "int list"
  | REALSXP "64 word list"
  | LGLSXP "int list"
  | OTHERSXP nat

fun Rf_length :: "SEXP \<Rightarrow> nat" where
  "Rf_length (STRSXP xs) = length xs"
| "Rf_length (INTSXP xs) = length xs"
| "Rf_length (FACTOR lv xs) = length xs"
| "Rf_length (REALSXP xs) = length xs"
| "Rf_length (LGLSXP xs) = length xs"
| "Rf_length (OTHERSXP n) = n"

text \<open>
  The column codecs and the block streamers are not among the sources at hand. They are
  parameters of the model: each takes its arguments and the stream and returns the stream
  after its writes. \<open>uninit\<close> and \<open>uninitPos\<close> are the indeterminate contents of the two
  arrays the writer allocates with \<^verbatim>\<open>new\<close> and never clears.
\<close>

record writers =
  uninit :: "nat \<Rightarrow> byte"
  uninitPos :: "nat \<Rightarrow> nat"
  fdsWriteCharVec_v6 :: "string list \<Rightarrow> nat \<Rightarrow> int \<Rightarrow> ofstream \<Rightarrow> ofstream"
  fdsWriteFactorVec_v7 :: "string list \<Rightarrow> int list \<Rightarrow> nat \<Rightarrow> int \<Rightarrow> ofstream \<Rightarrow> ofstream"
  fdsWriteIntVec_v8 :: "int list \<Rightarrow> nat \<Rightarrow> int \<Rightarrow> ofstream \<Rightarrow> ofstream"
  fdsWriteRealVec_v9 :: "64 word list \<Rightarrow> nat \<Rightarrow> int \<Rightarrow> ofstream \<Rightarrow> ofstream"
  fdsStream_v2 :: "stream_call \<Rightarrow> int list \<Rightarrow> ofstream \<Rightarrow> ofstream"

text \<open>The logical codec is in the sources: it runs the streamer call it has chosen, if any.\<close>

definition writeLogicalVec_v10 :: "writers \<Rightarrow> int list \<Rightarrow> nat \<Rightarrow> int \<Rightarrow> ofstream \<Rightarrow> ofstream" where
  "writeLogicalVec_v10 w boolVector nrOfLogicals compression myfile =
     (case fdsWriteLogicalVec_v10 nrOfLogicals compression of
        NoStream \<Rightarrow> myfile
      | call \<Rightarrow> fdsStream_v2 w call boolVector myfile)"

definition FST_VERSION :: nat where
  "FST_VERSION = 1"

definition FST_FILE_ID :: nat where
  "FST_FILE_ID = 0xa91c12f8b245a71d"

definition TABLE_META_SIZE :: nat where
  "TABLE_META_SIZE = 24"

fun FindKey_from :: "string list \<Rightarrow> string \<Rightarrow> int \<Rightarrow> int" where
  "FindKey_from [] item found = - 1"
| "FindKey_from (x # xs) item found =
     (if x = item then found else FindKey_from xs item (found + 1))"

definition FindKey :: "string list \<Rightarrow> string \<Rightarrow> int" where
  "FindKey colNameList item = FindKey_from colNameList item 0"

text \<open>The loop over the key names: \<^verbatim>\<open>keyColPos[colSel] = FindKey(colNames, keyList[colSel])\<close>.\<close>

fun storeKeys :: "string list \<Rightarrow> string list \<Rightarrow> nat \<Rightarrow> byte list \<Rightarrow> byte list" where
  "storeKeys colNames [] colSel metaDataBlock = metaDataBlock"
| "storeKeys colNames (k # keyList) colSel metaDataBlock =
     storeKeys colNames keyList (Suc colSel)
       (poke metaDataBlock (156 + 4 * colSel) (le_bytes 4 (u32_of_int (FindKey colNames k))))"

text \<open>
  The loop over the columns. The state is the metadata block (it holds \<^verbatim>\<open>colTypes\<close> at
  \<open>colTypesAt = 156 + 4 * keyLength\<close>), the array \<^verbatim>\<open>positionData\<close> and the stream.
\<close>

fun writeColumns ::
  "writers \<Rightarrow> nat \<Rightarrow> int \<Rightarrow> nat \<Rightarrow> SEXP list \<Rightarrow> nat \<Rightarrow> byte list \<times> nat list \<times> ofstream
     \<Rightarrow> fst_error + byte list \<times> nat list \<times> ofstream" where
  "writeColumns w nrOfRows compress colTypesAt [] colNr st = Inr st"
| "writeColumns w nrOfRows compress colTypesAt (colVec # rest) colNr (metaDataBlock, positionData, myfile) =
     (let positionData' = positionData[colNr := tellp myfile];
          colType = (\<lambda>t. poke metaDataBlock (colTypesAt + 2 * colNr) (le_bytes 2 t));
          continue = (\<lambda>t myfile'. writeColumns w nrOfRows compress colTypesAt rest (Suc colNr)
                        (colType t, positionData', myfile'))
      in case colVec of
           STRSXP xs \<Rightarrow> continue 6 (fdsWriteCharVec_v6 w xs nrOfRows compress myfile)
         | FACTOR lv xs \<Rightarrow> continue 7 (fdsWriteFactorVec_v7 w lv xs nrOfRows compress myfile)
         | INTSXP xs \<Rightarrow> continue 8 (fdsWriteIntVec_v8 w xs nrOfRows compress myfile)
         | REALSXP xs \<Rightarrow> continue 9 (fdsWriteRealVec_v9 w xs nrOfRows compress myfile)
         | LGLSXP xs \<Rightarrow> continue 10 (writeLogicalVec_v10 w xs nrOfRows compress myfile)
         | OTHERSXP n \<Rightarrow> Inl UnknownColumnType)"

text \<open>
  What \<^verbatim>\<open>fstStore\<close> leaves behind: the file, and of the values it returns the key length
  and the size of the metadata block. \<open>positions\<close> is the final \<^verbatim>\<open>positionData\<close>
  array; the function does not return it, it is kept here so that it can be spoken about.
\<close>

record store_result =
  outFile :: "byte list"
  r_keyLength :: nat
  r_metaDataSize :: nat
  positions :: "nat list"

text \<open>
  The metadata block as it is when the file is opened (lines 136 to 177 of FastStore.cpp):
  allocated, then the key positions, the fixed fields and \<^verbatim>\<open>chunkRows[0]\<close> stored.
\<close>

definition initMetaData :: "writers \<Rightarrow> string list \<Rightarrow> string list option \<Rightarrow> nat \<Rightarrow> byte list" where
  "initMetaData w colNames keyNames nrOfRows =
     (let nrOfCols = length colNames;
          keyLength = (case keyNames of None \<Rightarrow> 0 | Some ks \<Rightarrow> length ks);
          metaDataSize = 156 + 4 * keyLength + 2 * nrOfCols;
          m0 = map (uninit w) [0..<metaDataSize];
          m1 = (if keyLength \<noteq> 0 then storeKeys colNames (the keyNames) 0 m0 else m0);
          m2 = poke m1 0 (le_bytes 4 nrOfCols);
          m3 = poke m2 4 (le_bytes 4 keyLength);
          m4 = poke m3 8 (le_bytes 4 FST_VERSION);
          m5 = poke m4 12 (le_bytes 4 1);
          m6 = poke m5 16 (le_bytes 8 FST_FILE_ID);
          m7 = poke m6 152 (le_bytes 4 1)
      in poke m7 88 (le_bytes 8 nrOfRows))"

text \<open>
  \<^verbatim>\<open>fstStore\<close>. The table is the list of its named columns; \<open>keyNames\<close> is the attribute
  \<^verbatim>\<open>sorted\<close> (\<open>None\<close> for \<^verbatim>\<open>NULL\<close>); \<open>compression\<close> is \<open>None\<close> when the argument
  is not an integer vector; \<open>canOpen\<close> tells whether the file can be created.
\<close>

definition fstStore ::
  "writers \<Rightarrow> bool \<Rightarrow> (string \<times> SEXP) list \<Rightarrow> string list option \<Rightarrow> int option
     \<Rightarrow> fst_error + store_result" where
  "fstStore w canOpen tbl keyNames compression =
     (case compression of
        None \<Rightarrow> Inl BadCompression
      | Some compress \<Rightarrow>
          if compress < 0 \<or> compress > 100 then Inl BadCompression
          else
            let colNames = map fst tbl;
                nrOfCols = length colNames;
                keyLength = (case keyNames of None \<Rightarrow> 0 | Some ks \<Rightarrow> length ks)
            in
            if nrOfCols = 0 then Inl NoColumns
            else
              let metaDataSize = 156 + 4 * keyLength + 2 * nrOfCols;
                  nrOfRows = Rf_length (snd (hd tbl));
                  metaDataBlock = initMetaData w colNames keyNames nrOfRows
              in
              if nrOfRows = 0 then Inl NoData
              else if \<not> canOpen then Inl CreateError
              else
                let myfile1 = owrite \<lparr>content = [], ppos = 0\<rparr> metaDataBlock;
                    myfile2 = fdsWriteCharVec_v6 w colNames nrOfCols 0 myfile1;
                    positionData = map (uninitPos w) [0..<nrOfCols];
                    myfile3 = owrite myfile2 (concat (map (le_bytes 8) positionData))
                in
                case writeColumns w nrOfRows compress (156 + 4 * keyLength) (map snd tbl) 0
                       (metaDataBlock, positionData, myfile3) of
                  Inl e \<Rightarrow> Inl e
                | Inr (metaDataBlock', positionData', myfile4) \<Rightarrow>
                    let chunkPos = (positionData' ! 0 + 2 ^ 64 - 8 * nrOfCols) mod 2 ^ 64;
                        header = poke metaDataBlock' 24 (le_bytes 8 chunkPos);
                        myfile5 = owrite (seekp myfile4 0) header;
                        myfile6 = owrite (seekp myfile5 chunkPos) (concat (map (le_bytes 8) positionData'))
                    in Inr \<lparr>outFile = content myfile6, r_keyLength = keyLength,
                            r_metaDataSize = metaDataSize, positions = positionData'\<rparr>)"


section \<open>Input streams\<close>

text \<open>
  An input file stream: the bytes of the file, the get position and the fail bit. A read
  into a buffer that finds too few bytes stores those it finds, leaves the rest of the
  buffer as it was and sets the fail bit; a read on a failed stream stores nothing. Every
  buffer the readers fill is fresh from \<^verbatim>\<open>new\<close> (or the stack), so what a short read
  leaves in it is indeterminate: \<open>junk\<close> gives those bytes.
\<close>

record ifstream =
  icontent :: "byte list"
  gpos :: nat
  ifail :: bool

definition ifopen :: "byte list \<Rightarrow> ifstream" where
  "ifopen f = \<lparr>icontent = f, gpos = 0, ifail = False\<rparr>"

definition iread :: "(nat \<Rightarrow> byte) \<Rightarrow> ifstream \<Rightarrow> nat \<Rightarrow> byte list \<times> ifstream" where
  "iread junk s n =
     (if ifail s then (map junk [0..<n], s)
      else
        let avail = drop (gpos s) (icontent s) in
        if n \<le> length avail then (take n avail, s\<lparr>gpos := gpos s + n\<rparr>)
        else (avail @ map junk [length avail..<n],
              s\<lparr>gpos := length (icontent s), ifail := True\<rparr>))"

text \<open>
  A field of \<open>n\<close> bytes read through a pointer at a computed offset of a buffer:
  \<open>None\<close> when the bytes lie outside the buffer.
\<close>

definition field :: "byte list \<Rightarrow> int \<Rightarrow> nat \<Rightarrow> nat option" where
  "field buf off n =
     (if 0 \<le> off \<and> nat off + n \<le> length buf then Some (u_at buf (nat off) n) else None)"

definition int_ok :: "int \<Rightarrow> bool" where
  "int_ok x = (- (2 ^ 31) \<le> x \<and> x < 2 ^ 31)"


section \<open>The table readers\<close>

text \<open>
  The column decoders are not among the sources at hand; they are parameters. A decoder
  gets the stream, the position of the column in the file, the first row, the number of
  rows and the number of rows of the table, and fills a vector that the reader has
  allocated: it returns what it leaves at each index of that vector, and the stream, or
  \<open>None\<close> when it raises an error (\<open>CodecError\<close> for the reader). The factor decoders return the level strings as well.
\<close>

type_synonym 'a decoder =
  "ifstream \<Rightarrow> nat \<Rightarrow> nat \<Rightarrow> nat \<Rightarrow> nat \<Rightarrow> ((nat \<Rightarrow> 'a) \<times> ifstream) option"

type_synonym factor_decoder =
  "ifstream \<Rightarrow> nat \<Rightarrow> nat \<Rightarrow> nat \<Rightarrow> nat \<Rightarrow> ((string list \<times> (nat \<Rightarrow> int)) \<times> ifstream) option"

record readers =
  junk :: "nat \<Rightarrow> nat \<Rightarrow> byte"
  fdsReadCharVec_v6 :: "string decoder"
  fdsReadFactorVec_v7 :: factor_decoder
  fdsReadIntVec_v8 :: "int decoder"
  fdsReadRealVec_v9 :: "64 word decoder"
  fdsReadLogicalVec_v10 :: "int decoder"
  fdsReadCharVec_v1 :: "string decoder"
  fdsReadIntVec_v2 :: "int decoder"
  fdsReadRealVec_v3 :: "64 word decoder"
  fdsReadLogicalVec_v4 :: "int decoder"
  fdsReadFactorVec_v5 :: factor_decoder

text \<open>
  What a reader returns to R: the named list it creates (without \<^verbatim>\<open>colInfo\<close>, the
  decoders' own return values), and the warnings it has raised with \<^verbatim>\<open>Rf_warning\<close>.
\<close>

datatype rvalue =
    RNull
  | RInt int
  | RIntVec "int list"
  | RStrVec "string list"
  | RTable "SEXP list"

datatype warning =
    BetaFormat  \<comment> \<open>This fst file was created with a beta version of the fst package. Please
                   re-write the data as this format will not be supported in future releases.\<close>

record read_result =
  rlist :: "(string \<times> rvalue) list"
  warnings :: "warning list"

definition ReadHeader ::
  "(nat \<Rightarrow> byte) \<Rightarrow> ifstream \<Rightarrow> fst_error + nat \<times> int \<times> int \<times> nat \<times> ifstream" where
  "ReadHeader jk myfile =
     (let (tableMeta, myfile') = iread jk myfile TABLE_META_SIZE in
      if ifail myfile' then Inl DamagedHeader
      else
        let nrOfCols = int_of_u32 (u_at tableMeta 0 4);
            keyLength = int_of_u32 (u_at tableMeta 4 4);
            version = u_at tableMeta 8 4;
            nrOfChunksPerIndexRow = u_at tableMeta 12 4
        in
        if u_at tableMeta 16 8 \<noteq> FST_FILE_ID then
          Inr (0, nrOfCols, keyLength, nrOfChunksPerIndexRow, myfile')
        else if version > FST_VERSION then Inl NewerVersion
        else Inr (version, nrOfCols, keyLength, nrOfChunksPerIndexRow, myfile'))"

text \<open>
  \<^verbatim>\<open>dataMetaSize = 132 + 4 * keyLength + 2 * nrOfCols\<close> is computed in \<^verbatim>\<open>int\<close> and turned
  into an \<^verbatim>\<open>unsigned long long\<close>: an overflow of the \<^verbatim>\<open>int\<close> arithmetic is undefined, and a
  negative value becomes a size that \<^verbatim>\<open>new\<close> cannot allocate. The read of the block is not
  tested.
\<close>

definition readDataMeta ::
  "(nat \<Rightarrow> byte) \<Rightarrow> int \<Rightarrow> int \<Rightarrow> ifstream \<Rightarrow> fst_error + byte list \<times> ifstream" where
  "readDataMeta jk nrOfCols keyLength myfile =
     (let dataMetaSize = 132 + 4 * keyLength + 2 * nrOfCols in
      if \<not> (int_ok (4 * keyLength) \<and> int_ok (132 + 4 * keyLength) \<and> int_ok (2 * nrOfCols)
             \<and> int_ok dataMetaSize) then Inl Undefined
      else if dataMetaSize < 0 then Inl BadAlloc
      else Inr (iread jk myfile (nat dataMetaSize)))"

text \<open>The search of one selected name among the column names, and the loop over the selection.\<close>

fun findColumn :: "string list \<Rightarrow> string \<Rightarrow> nat \<Rightarrow> int" where
  "findColumn [] str1 colNr = - 1"
| "findColumn (str2 # rest) str1 colNr =
     (if str1 = str2 then int colNr else findColumn rest str1 (Suc colNr))"

fun resolveSelection :: "string list \<Rightarrow> string list \<Rightarrow> fst_error + int list" where
  "resolveSelection colNames [] = Inr []"
| "resolveSelection colNames (str1 # sel) =
     (let equal = findColumn colNames str1 0 in
      if equal = - 1 then Inl ColumnNotFound
      else case resolveSelection colNames sel of
             Inl e \<Rightarrow> Inl e
           | Inr colIndex \<Rightarrow> Inr (equal # colIndex))"

text \<open>
  What \<^verbatim>\<open>fstRead\<close> holds when it comes to the rows: the metadata block after the 24-byte
  header, the header's two counts, the column names, the column-position index as read, the
  selected column numbers and the stream.
\<close>

record table_meta =
  tm_dataMeta :: "byte list"
  tm_nrOfCols :: int
  tm_keyLength :: int
  tm_colNames :: "string list"
  tm_blockPos :: "byte list"
  tm_colIndex :: "int list"
  tm_file :: ifstream

text \<open>Lines 479 to 569 of FastStore.cpp: from the metadata block to the column selection.\<close>

definition readTableMeta ::
  "readers \<Rightarrow> int \<Rightarrow> int \<Rightarrow> ifstream \<Rightarrow> string list option \<Rightarrow> fst_error + table_meta" where
  "readTableMeta rd nrOfCols keyLength myfile columnSelection =
     (case readDataMeta (junk rd 1) nrOfCols keyLength myfile of
        Inl e \<Rightarrow> Inl e
      | Inr (dataMeta, myfile1) \<Rightarrow>
          (case field dataMeta 128 4 of
             None \<Rightarrow> Inl Undefined
           | Some nrOfChunks \<Rightarrow>
               if nrOfChunks > 1 then Inl MultipleChunks
               else if nrOfCols < 0 then Inl NegativeLength
               else
                 let offset = nat (132 + 4 * keyLength + 2 * nrOfCols) + TABLE_META_SIZE in
                 (case fdsReadCharVec_v6 rd myfile1 offset 0 (nat nrOfCols) (nat nrOfCols) of
                    None \<Rightarrow> Inl CodecError
                  | Some (names, myfile2) \<Rightarrow>
                      let colNames = map names [0..<nat nrOfCols];
                          (blockPos, myfile3) = iread (junk rd 2) myfile2 (nat nrOfCols * 8)
                      in
                      (case (case columnSelection of
                                None \<Rightarrow> Inr (map int [0..<nat nrOfCols])
                              | Some sel \<Rightarrow> resolveSelection colNames sel) of
                         Inl e \<Rightarrow> Inl e
                       | Inr colIndex \<Rightarrow>
                           Inr \<lparr>tm_dataMeta = dataMeta, tm_nrOfCols = nrOfCols,
                                tm_keyLength = keyLength, tm_colNames = colNames,
                                tm_blockPos = blockPos, tm_colIndex = colIndex,
                                tm_file = myfile3\<rparr>))))"

text \<open>
  The check of the row range, the same statements in \<^verbatim>\<open>fstRead\<close> (lines 572 to 611) and
  in \<^verbatim>\<open>fstRead_v1\<close> (lines 364 to 404). \<open>startRow\<close> and \<open>endRow\<close> are C \<^verbatim>\<open>int\<close>s;
  \<open>startRow - 1\<close> wraps at the least \<^verbatim>\<open>int\<close>, as the machine's subtraction does. The result
  is \<^verbatim>\<open>firstRow\<close> and \<^verbatim>\<open>length\<close>.
\<close>

definition rowRange :: "32 word \<Rightarrow> 32 word option \<Rightarrow> int \<Rightarrow> fst_error + int \<times> int" where
  "rowRange startRow endRow nrOfRows =
     (let firstRow = sint (startRow - 1) in
      if firstRow \<ge> nrOfRows \<or> firstRow < 0 then
        (if firstRow < 0 then Inl FromRowNotPositive else Inl RowOutOfRange)
      else
        (case endRow of
           None \<Rightarrow> Inr (firstRow, nrOfRows - firstRow)
         | Some e \<Rightarrow>
             let lastRow = sint e in
             if lastRow \<le> firstRow then Inl LastRowBeforeFromRow
             else Inr (firstRow, min (lastRow - firstRow) (nrOfRows - firstRow))))"

text \<open>The switch on the column type of the current format, with the vector it allocates.\<close>

definition decodeColumn ::
  "readers \<Rightarrow> nat \<Rightarrow> ifstream \<Rightarrow> nat \<Rightarrow> nat \<Rightarrow> nat \<Rightarrow> nat \<Rightarrow> fst_error + SEXP \<times> ifstream" where
  "decodeColumn rd colType myfile pos firstRow len nrOfRows =
     (if colType = 6 then
        (case fdsReadCharVec_v6 rd myfile pos firstRow len nrOfRows of
           None \<Rightarrow> Inl CodecError | Some (v, s) \<Rightarrow> Inr (STRSXP (map v [0..<len]), s))
      else if colType = 8 then
        (case fdsReadIntVec_v8 rd myfile pos firstRow len nrOfRows of
           None \<Rightarrow> Inl CodecError | Some (v, s) \<Rightarrow> Inr (INTSXP (map v [0..<len]), s))
      else if colType = 9 then
        (case fdsReadRealVec_v9 rd myfile pos firstRow len nrOfRows of
           None \<Rightarrow> Inl CodecError | Some (v, s) \<Rightarrow> Inr (REALSXP (map v [0..<len]), s))
      else if colType = 10 then
        (case fdsReadLogicalVec_v10 rd myfile pos firstRow len nrOfRows of
           None \<Rightarrow> Inl CodecError | Some (v, s) \<Rightarrow> Inr (LGLSXP (map v [0..<len]), s))
      else if colType = 7 then
        (case fdsReadFactorVec_v7 rd myfile pos firstRow len nrOfRows of
           None \<Rightarrow> Inl CodecError | Some ((lv, v), s) \<Rightarrow> Inr (FACTOR lv (map v [0..<len]), s))
      else Inl UnknownColumnType)"

text \<open>
  The loop over the selected columns: the names and the vectors of the result. \<open>typesAt\<close>
  is the offset of \<^verbatim>\<open>colTypes\<close> in the metadata block.
\<close>

fun readColumns ::
  "readers \<Rightarrow> table_meta \<Rightarrow> int \<Rightarrow> int \<Rightarrow> int \<Rightarrow> int list \<Rightarrow> ifstream
     \<Rightarrow> fst_error + string list \<times> SEXP list" where
  "readColumns rd tm firstRow len nrOfRows [] myfile = Inr ([], [])"
| "readColumns rd tm firstRow len nrOfRows (colNr # rest) myfile =
     (if colNr < 0 \<or> colNr \<ge> tm_nrOfCols tm then Inl ColumnOutOfRange
      else
        let selName = tm_colNames tm ! nat colNr;
            pos = u_at (tm_blockPos tm) (8 * nat colNr) 8
        in
        case field (tm_dataMeta tm) (132 + 4 * tm_keyLength tm + 2 * colNr) 2 of
          None \<Rightarrow> Inl Undefined
        | Some colType \<Rightarrow>
            (case decodeColumn rd colType myfile pos (nat firstRow) (nat len) (nat nrOfRows) of
               Inl e \<Rightarrow> Inl e
             | Inr (vec, myfile') \<Rightarrow>
                 (case readColumns rd tm firstRow len nrOfRows rest myfile' of
                    Inl e \<Rightarrow> Inl e
                  | Inr (selectedNames, resTable) \<Rightarrow> Inr (selName # selectedNames, vec # resTable))))"

text \<open>
  The key columns of the current format, \<^verbatim>\<open>keyColPos[0 .. keyLength - 1]\<close>, and the end of
  \<^verbatim>\<open>fstRead\<close>: the keys found among the selected columns, and the list that is returned.
  The names of the keys are taken at \<^verbatim>\<open>keyColPos[0 .. found - 1]\<close>; a position outside the
  column names is a read outside the vector. So is the loop that fills \<^verbatim>\<open>keyColVec\<close> when
  \<^verbatim>\<open>keyLength\<close> is negative.
\<close>

definition keyColPos :: "byte list \<Rightarrow> int \<Rightarrow> int list" where
  "keyColPos dm keyLength = map (\<lambda>i. int_of_u32 (u_at dm (132 + 4 * i) 4)) [0..<nat keyLength]"

definition readSelected ::
  "readers \<Rightarrow> table_meta \<Rightarrow> int \<Rightarrow> int \<Rightarrow> int \<Rightarrow> fst_error + read_result" where
  "readSelected rd tm firstRow len nrOfRows =
     (case readColumns rd tm firstRow len nrOfRows (tm_colIndex tm) (tm_file tm) of
        Inl e \<Rightarrow> Inl e
      | Inr (selectedNames, resTable) \<Rightarrow>
          let keys = keyColPos (tm_dataMeta tm) (tm_keyLength tm);
              found = length (filter (\<lambda>k. k \<in> set (tm_colIndex tm)) keys)
          in
          if found > 0 then
            (if list_ex (\<lambda>k. k < 0 \<or> k \<ge> tm_nrOfCols tm) (take found keys) then Inl Undefined
             else
               Inr \<lparr>rlist = [(''keyNames'', RStrVec (map (\<lambda>k. tm_colNames tm ! nat k) (take found keys))),
                              (''found'', RInt (int found)),
                              (''resTable'', RTable resTable),
                              (''selectedNames'', RStrVec selectedNames)],
                    warnings = []\<rparr>)
          else if tm_keyLength tm < 0 then Inl Undefined
          else
            Inr \<lparr>rlist = [(''keyNames'', RNull),
                           (''found'', RInt (int found)),
                           (''keyColVec'', RIntVec (keys @ [0])),
                           (''keyLength'', RInt (tm_keyLength tm)),
                           (''nrOfSelect'', RInt (int (length (tm_colIndex tm)))),
                           (''selectedNames'', RStrVec selectedNames),
                           (''resTable'', RTable resTable)],
                 warnings = []\<rparr>)"

section \<open>The reader of the legacy format\<close>

text \<open>
  \<^verbatim>\<open>fstMeta_v1\<close> and \<^verbatim>\<open>fstRead_v1\<close> (FastStore\_v1.cpp) open with the same statements
  (lines 72 to 150 and 242 to 309): the two sizes, the key columns, the column types and the
  block positions, each followed by its checks. \<^verbatim>\<open>allBlockPos[0]\<close> is the number of rows,
  \<^verbatim>\<open>allBlockPos[1 .. nrOfCols]\<close> are the positions of the columns.
\<close>

record legacy_header =
  lh_nrOfCols :: int
  lh_keyLength :: int
  lh_keyColumns :: "byte list"
  lh_colTypes :: "byte list"
  lh_allBlockPos :: "byte list"
  lh_file :: ifstream

definition short_at :: "byte list \<Rightarrow> nat \<Rightarrow> int" where
  "short_at buf i = int_of_u16 (u_at buf (2 * i) 2)"

definition readLegacyHeader :: "readers \<Rightarrow> ifstream \<Rightarrow> fst_error + legacy_header" where
  "readLegacyHeader rd myfile =
     (let (colSizes, myfile1) = iread (junk rd 0) myfile 4 in
      if short_at colSizes 0 < 0 \<or> short_at colSizes 1 < 0 then Inl UnrecognisedFile
      else
        let nrOfCols = short_at colSizes 0;
            keyLength = short_at colSizes 1 mod 32768;
            (keyColumns, myfile2) = iread (junk rd 1) myfile1 (nat keyLength * 2)
        in
        if list_ex (\<lambda>keyColCount. short_at keyColumns keyColCount < 0
                       \<or> short_at keyColumns keyColCount \<ge> nrOfCols) [0..<nat keyLength]
        then Inl LegacyHeaderError
        else
          let (colTypes, myfile3) = iread (junk rd 2) myfile2 (nat nrOfCols * 2) in
          if list_ex (\<lambda>colCount. short_at colTypes colCount < 0 \<or> short_at colTypes colCount > 5)
               [0..<nat nrOfCols]
          then Inl LegacyHeaderError
          else
            let (allBlockPos, myfile4) = iread (junk rd 3) myfile3 ((nat nrOfCols + 1) * 8) in
            if list_ex (\<lambda>colCount. u_at allBlockPos (8 * colCount) 8
                                     < u_at allBlockPos (8 * (colCount - 1)) 8)
                 [2..<nat nrOfCols + 1]
            then Inl LegacyBlockPosError
            else Inr \<lparr>lh_nrOfCols = nrOfCols, lh_keyLength = keyLength,
                      lh_keyColumns = keyColumns, lh_colTypes = colTypes,
                      lh_allBlockPos = allBlockPos, lh_file = myfile4\<rparr>)"

definition legacyNamesOffset :: "legacy_header \<Rightarrow> nat" where
  "legacyNamesOffset h =
     (nat (lh_nrOfCols h) + 1) * 8 + (nat (lh_nrOfCols h) + nat (lh_keyLength h) + 2) * 2"

definition legacyKeys :: "legacy_header \<Rightarrow> int list" where
  "legacyKeys h = map (short_at (lh_keyColumns h)) [0..<nat (lh_keyLength h)]"

definition fstMeta_v1 :: "readers \<Rightarrow> byte list option \<Rightarrow> fst_error + read_result" where
  "fstMeta_v1 rd fileName =
     (case fileName of
        None \<Rightarrow> Inl OpenErrorLegacy
      | Some f \<Rightarrow>
          (case readLegacyHeader rd (ifopen f) of
             Inl e \<Rightarrow> Inl e
           | Inr h \<Rightarrow>
               let nrOfCols = lh_nrOfCols h;
                   keyLength = lh_keyLength h;
                   colTypeVec = map (short_at (lh_colTypes h)) [0..<nat nrOfCols];
                   nrOfRows = int_of_u32 (u_at (lh_allBlockPos h) 0 8)
               in
               if nrOfRows \<le> 0 then Inl LegacyBlockPosError
               else
                 (case fdsReadCharVec_v1 rd (lh_file h) (legacyNamesOffset h) 0
                         (nat nrOfCols) (nat nrOfCols) of
                    None \<Rightarrow> Inl CodecError
                  | Some (names, myfile5) \<Rightarrow>
                      let colNames = map names [0..<nat nrOfCols] in
                      if keyLength > 0 then
                        Inr \<lparr>rlist = [(''nrOfCols'', RInt nrOfCols),
                                       (''nrOfRows'', RInt nrOfRows),
                                       (''fstVersion'', RInt 0),
                                       (''colTypeVec'', RIntVec colTypeVec),
                                       (''keyColIndex'', RIntVec (legacyKeys h)),
                                       (''keyLength'', RInt keyLength),
                                       (''keyNames'', RStrVec (map (\<lambda>k. colNames ! nat k) (legacyKeys h))),
                                       (''colNames'', RStrVec colNames),
                                       (''nrOfChunks'', RInt 1)],
                             warnings = []\<rparr>
                      else
                        Inr \<lparr>rlist = [(''nrOfCols'', RInt nrOfCols),
                                       (''nrOfRows'', RInt nrOfRows),
                                       (''fstVersion'', RInt 0),
                                       (''keyLength'', RInt keyLength),
                                       (''colTypeVec'', RIntVec colTypeVec),
                                       (''colNames'', RStrVec colNames),
                                       (''nrOfChunks'', RInt 1)],
                             warnings = []\<rparr>)))"

text \<open>
  The selection loop of \<^verbatim>\<open>fstRead_v1\<close> stores into \<^verbatim>\<open>colIndex\<close>, an array of
  \<^verbatim>\<open>nrOfCols\<close> elements whatever the length of the selection: a store at \<open>colSel\<close> beyond
  it lies outside the array.
\<close>

fun resolveSelection_v1 :: "string list \<Rightarrow> nat \<Rightarrow> string list \<Rightarrow> nat \<Rightarrow> fst_error + int list" where
  "resolveSelection_v1 colNames cap [] colSel = Inr []"
| "resolveSelection_v1 colNames cap (str1 # sel) colSel =
     (let equal = findColumn colNames str1 0 in
      if equal = - 1 then Inl ColumnNotFound
      else if colSel \<ge> cap then Inl Undefined
      else case resolveSelection_v1 colNames cap sel (Suc colSel) of
             Inl e \<Rightarrow> Inl e
           | Inr colIndex \<Rightarrow> Inr (equal # colIndex))"

text \<open>The switch on the column type of the legacy format.\<close>

definition decodeColumn_v1 ::
  "readers \<Rightarrow> int \<Rightarrow> ifstream \<Rightarrow> nat \<Rightarrow> nat \<Rightarrow> nat \<Rightarrow> nat \<Rightarrow> fst_error + SEXP \<times> ifstream" where
  "decodeColumn_v1 rd colType myfile pos firstRow len nrOfRows =
     (if colType = 1 then
        (case fdsReadCharVec_v1 rd myfile pos firstRow len nrOfRows of
           None \<Rightarrow> Inl CodecError | Some (v, s) \<Rightarrow> Inr (STRSXP (map v [0..<len]), s))
      else if colType = 2 then
        (case fdsReadIntVec_v2 rd myfile pos firstRow len nrOfRows of
           None \<Rightarrow> Inl CodecError | Some (v, s) \<Rightarrow> Inr (INTSXP (map v [0..<len]), s))
      else if colType = 3 then
        (case fdsReadRealVec_v3 rd myfile pos firstRow len nrOfRows of
           None \<Rightarrow> Inl CodecError | Some (v, s) \<Rightarrow> Inr (REALSXP (map v [0..<len]), s))
      else if colType = 4 then
        (case fdsReadLogicalVec_v4 rd myfile pos firstRow len nrOfRows of
           None \<Rightarrow> Inl CodecError | Some (v, s) \<Rightarrow> Inr (LGLSXP (map v [0..<len]), s))
      else if colType = 5 then
        (case fdsReadFactorVec_v5 rd myfile pos firstRow len nrOfRows of
           None \<Rightarrow> Inl CodecError | Some ((lv, v), s) \<Rightarrow> Inr (FACTOR lv (map v [0..<len]), s))
      else Inl UnknownColumnType)"

fun readColumns_v1 ::
  "readers \<Rightarrow> legacy_header \<Rightarrow> string list \<Rightarrow> int \<Rightarrow> int \<Rightarrow> int \<Rightarrow> int list \<Rightarrow> ifstream
     \<Rightarrow> fst_error + string list \<times> SEXP list" where
  "readColumns_v1 rd h colNames firstRow len nrOfRows [] myfile = Inr ([], [])"
| "readColumns_v1 rd h colNames firstRow len nrOfRows (colNr # rest) myfile =
     (if colNr < 0 \<or> colNr \<ge> lh_nrOfCols h then Inl ColumnOutOfRange
      else
        let selName = colNames ! nat colNr;
            pos = u_at (lh_allBlockPos h) (8 * (nat colNr + 1)) 8
        in
        case decodeColumn_v1 rd (short_at (lh_colTypes h) (nat colNr)) myfile pos
               (nat firstRow) (nat len) (nat nrOfRows) of
          Inl e \<Rightarrow> Inl e
        | Inr (vec, myfile') \<Rightarrow>
            (case readColumns_v1 rd h colNames firstRow len nrOfRows rest myfile' of
               Inl e \<Rightarrow> Inl e
             | Inr (selectedNames, resTable) \<Rightarrow> Inr (selName # selectedNames, vec # resTable)))"

definition fstRead_v1 ::
  "readers \<Rightarrow> byte list option \<Rightarrow> string list option \<Rightarrow> 32 word \<Rightarrow> 32 word option
     \<Rightarrow> fst_error + read_result" where
  "fstRead_v1 rd fileName columnSelection startRow endRow =
     (case fileName of
        None \<Rightarrow> Inl OpenErrorLegacy
      | Some f \<Rightarrow>
          (case readLegacyHeader rd (ifopen f) of
             Inl e \<Rightarrow> Inl e
           | Inr h \<Rightarrow>
               let nrOfCols = lh_nrOfCols h in
               (case fdsReadCharVec_v1 rd (lh_file h) (legacyNamesOffset h) 0
                       (nat nrOfCols) (nat nrOfCols) of
                  None \<Rightarrow> Inl CodecError
                | Some (names, myfile5) \<Rightarrow>
                    let colNames = map names [0..<nat nrOfCols] in
                    (case (case columnSelection of
                              None \<Rightarrow> Inr (map int [0..<nat nrOfCols])
                            | Some sel \<Rightarrow> resolveSelection_v1 colNames (nat nrOfCols) sel 0) of
                       Inl e \<Rightarrow> Inl e
                     | Inr colIndex \<Rightarrow>
                         let nrOfRows = int_of_u32 (u_at (lh_allBlockPos h) 0 8) in
                         (case rowRange startRow endRow nrOfRows of
                            Inl e \<Rightarrow> Inl e
                          | Inr (firstRow, len) \<Rightarrow>
                              (case readColumns_v1 rd h colNames firstRow len nrOfRows colIndex myfile5 of
                                 Inl e \<Rightarrow> Inl e
                               | Inr (selectedNames, resTable) \<Rightarrow>
                                   let found = length (filter (\<lambda>k. k \<in> set colIndex) (legacyKeys h)) in
                                   if found > 0 then
                                     Inr \<lparr>rlist = [(''keyNames'', RStrVec (map (\<lambda>k. colNames ! nat k)
                                                                      (take found (legacyKeys h)))),
                                                    (''resTable'', RTable resTable),
                                                    (''selectedNames'', RStrVec selectedNames)],
                                          warnings = [BetaFormat]\<rparr>
                                   else
                                     Inr \<lparr>rlist = [(''keyNames'', RNull),
                                                    (''selectedNames'', RStrVec selectedNames),
                                                    (''resTable'', RTable resTable)],
                                          warnings = [BetaFormat]\<rparr>))))))"


section \<open>The readers of the current format\<close>

text \<open>
  \<^verbatim>\<open>fstRead\<close>. \<open>fileName\<close> is the content of the file, \<open>None\<close> when it cannot be
  opened; \<open>columnSelection\<close> and \<open>endRow\<close> are \<open>None\<close> for \<^verbatim>\<open>NULL\<close>. The number of
  rows is \<^verbatim>\<open>chunkRows[0]\<close> cut to an \<^verbatim>\<open>int\<close>.
\<close>

definition chunkRows0 :: "table_meta \<Rightarrow> int" where
  "chunkRows0 tm = int_of_u32 (u_at (tm_dataMeta tm) 64 8)"

definition fstRead ::
  "readers \<Rightarrow> byte list option \<Rightarrow> string list option \<Rightarrow> 32 word \<Rightarrow> 32 word option
     \<Rightarrow> fst_error + read_result" where
  "fstRead rd fileName columnSelection startRow endRow =
     (case fileName of
        None \<Rightarrow> Inl OpenError
      | Some f \<Rightarrow>
          (case ReadHeader (junk rd 0) (ifopen f) of
             Inl e \<Rightarrow> Inl e
           | Inr (version, nrOfCols, keyLength, nrOfChunksPerIndexRow, myfile) \<Rightarrow>
               if version = 0 then fstRead_v1 rd fileName columnSelection startRow endRow
               else
                 (case readTableMeta rd nrOfCols keyLength myfile columnSelection of
                    Inl e \<Rightarrow> Inl e
                  | Inr tm \<Rightarrow>
                      let nrOfRows = chunkRows0 tm in
                      (case rowRange startRow endRow nrOfRows of
                         Inl e \<Rightarrow> Inl e
                       | Inr (firstRow, len) \<Rightarrow> readSelected rd tm firstRow len nrOfRows))))"

text \<open>
  \<^verbatim>\<open>fstMeta\<close>. It reads the same metadata block, without the test of the number of
  chunks, and returns the description of the table. Its read of the column positions, of
  which it makes no use, is left out.
\<close>

definition fstMeta :: "readers \<Rightarrow> byte list option \<Rightarrow> fst_error + read_result" where
  "fstMeta rd fileName =
     (case fileName of
        None \<Rightarrow> Inl OpenError
      | Some f \<Rightarrow>
          (case ReadHeader (junk rd 0) (ifopen f) of
             Inl e \<Rightarrow> Inl e
           | Inr (version, nrOfCols, keyLength, nrOfChunksReserved, myfile) \<Rightarrow>
               if version = 0 then fstMeta_v1 rd fileName
               else
                 (case readDataMeta (junk rd 1) nrOfCols keyLength myfile of
                    Inl e \<Rightarrow> Inl e
                  | Inr (dataMeta, myfile1) \<Rightarrow>
                      (case field dataMeta 64 8 of
                         None \<Rightarrow> Inl Undefined
                       | Some chunkRows \<Rightarrow>
                           if nrOfCols < 0 then Inl NegativeLength
                           else
                             (case those (map (\<lambda>col. field dataMeta (132 + 4 * keyLength + 2 * int col) 2)
                                            [0..<nat nrOfCols]) of
                                None \<Rightarrow> Inl Undefined
                              | Some colTypeVec \<Rightarrow>
                                  let offset = nat (132 + 4 * keyLength + 2 * nrOfCols) + TABLE_META_SIZE in
                                  (case fdsReadCharVec_v6 rd myfile1 offset 0 (nat nrOfCols) (nat nrOfCols) of
                                     None \<Rightarrow> Inl CodecError
                                   | Some (names, myfile2) \<Rightarrow>
                                       let colNames = map names [0..<nat nrOfCols];
                                           keys = keyColPos dataMeta keyLength
                                       in
                                       (case field dataMeta 128 4 of
                                          None \<Rightarrow> Inl Undefined
                                        | Some nrOfChunks \<Rightarrow>
                                            if keyLength > 0 then
                                              (if list_ex (\<lambda>k. k < 0 \<or> k \<ge> nrOfCols) keys then Inl Undefined
                                               else
                                                 Inr \<lparr>rlist = [(''nrOfCols'', RInt nrOfCols),
                                                                (''nrOfRows'', RInt (int_of_u32 chunkRows)),
                                                                (''fstVersion'', RInt (int version)),
                                                                (''colTypeVec'', RIntVec (map int colTypeVec)),
                                                                (''keyColIndex'', RIntVec keys),
                                                                (''keyLength'', RInt keyLength),
                                                                (''keyNames'', RStrVec (map (\<lambda>k. colNames ! nat k) keys)),
                                                                (''colNames'', RStrVec colNames),
                                                                (''nrOfChunks'', RInt (int nrOfChunks))],
                                                      warnings = []\<rparr>)
                                            else
                                              Inr \<lparr>rlist = [(''nrOfCols'', RInt nrOfCols),
                                                             (''nrOfRows'', RInt (int_of_u32 chunkRows)),
                                                             (''fstVersion'', RInt (int version)),
                                                             (''keyLength'', RInt keyLength),
                                                             (''colTypeVec'', RIntVec (map int colTypeVec)),
                                                             (''colNames'', RStrVec colNames),
                                                             (''nrOfChunks'', RInt (int nrOfChunks))],
                                                   warnings = []\<rparr>)))))))"

section \<open>Notions used in the statements\<close>

text \<open>
  The put position once the header and the column names are written: there \<^verbatim>\<open>fstStore\<close>
  writes the column-position index.
\<close>

definition columnIndexOffset :: "writers \<Rightarrow> (string \<times> SEXP) list \<Rightarrow> string list option \<Rightarrow> nat" where
  "columnIndexOffset w tbl keyNames =
     tellp (fdsWriteCharVec_v6 w (map fst tbl) (length tbl) 0
       (owrite \<lparr>content = [], ppos = 0\<rparr>
          (initMetaData w (map fst tbl) keyNames (Rf_length (snd (hd tbl))))))"

text \<open>The codec call that the switch of \<^verbatim>\<open>fstStore\<close> makes for a column of a known type.\<close>

definition columnCodec :: "writers \<Rightarrow> nat \<Rightarrow> int \<Rightarrow> SEXP \<Rightarrow> ofstream \<Rightarrow> ofstream" where
  "columnCodec w nrOfRows compress colVec myfile =
     (case colVec of
        STRSXP xs \<Rightarrow> fdsWriteCharVec_v6 w xs nrOfRows compress myfile
      | FACTOR lv xs \<Rightarrow> fdsWriteFactorVec_v7 w lv xs nrOfRows compress myfile
      | INTSXP xs \<Rightarrow> fdsWriteIntVec_v8 w xs nrOfRows compress myfile
      | REALSXP xs \<Rightarrow> fdsWriteRealVec_v9 w xs nrOfRows compress myfile
      | LGLSXP xs \<Rightarrow> writeLogicalVec_v10 w xs nrOfRows compress myfile
      | OTHERSXP n \<Rightarrow> myfile)"

definition knownType :: "SEXP \<Rightarrow> bool" where
  "knownType colVec = (case colVec of OTHERSXP n \<Rightarrow> False | _ \<Rightarrow> True)"

text \<open>The stream when the loop over the columns starts.\<close>

definition payloadStart :: "writers \<Rightarrow> (string \<times> SEXP) list \<Rightarrow> string list option \<Rightarrow> ofstream" where
  "payloadStart w tbl keyNames =
     owrite (fdsWriteCharVec_v6 w (map fst tbl) (length tbl) 0
               (owrite \<lparr>content = [], ppos = 0\<rparr>
                  (initMetaData w (map fst tbl) keyNames (Rf_length (snd (hd tbl))))))
       (concat (map (le_bytes 8) (map (uninitPos w) [0..<length tbl])))"

text \<open>
  The put position when the loop over the columns comes to column \<open>i\<close>: the stream has
  been through the codec calls of the columns before it. This is the value the loop stores
  in \<^verbatim>\<open>positionData[i]\<close> before it writes the column.
\<close>

definition columnPosition ::
  "writers \<Rightarrow> (string \<times> SEXP) list \<Rightarrow> string list option \<Rightarrow> int \<Rightarrow> nat \<Rightarrow> nat" where
  "columnPosition w tbl keyNames compress i =
     tellp (fold (columnCodec w (Rf_length (snd (hd tbl))) compress) (take i (map snd tbl))
              (payloadStart w tbl keyNames))"

text \<open>The columns of a result of \<^verbatim>\<open>fstRead\<close>: its element \<^verbatim>\<open>resTable\<close>.\<close>

definition resultColumns :: "read_result \<Rightarrow> SEXP list" where
  "resultColumns r = (case map_of (rlist r) ''resTable'' of Some (RTable cols) \<Rightarrow> cols | _ \<Rightarrow> [])"


section \<open>Example codecs and files\<close>

text \<open>
  Codecs to run the model on: a string is stored as its first character, an integer as one
  byte, and a column of \<open>n\<close> rows as \<open>n\<close> bytes (\<open>0xEE\<close> for a row past the end of the
  vector that was handed over). The decoders read the bytes back from the position they are
  given.
\<close>

definition toyBytes :: "byte list \<Rightarrow> nat \<Rightarrow> byte list" where
  "toyBytes xs n = map (\<lambda>i. if i < length xs then xs ! i else 0xEE) [0..<n]"

definition toyChar :: "string \<Rightarrow> byte" where
  "toyChar x = (case x of [] \<Rightarrow> 0 | c # _ \<Rightarrow> of_char c)"

definition toyWriters :: writers where
  "toyWriters =
     \<lparr>uninit = (\<lambda>i. 0xCD),
      uninitPos = (\<lambda>i. 0),
      fdsWriteCharVec_v6 = (\<lambda>xs n c s. owrite s (toyBytes (map toyChar xs) n)),
      fdsWriteFactorVec_v7 = (\<lambda>lv xs n c s. owrite s (toyBytes (map of_int xs) n)),
      fdsWriteIntVec_v8 = (\<lambda>xs n c s. owrite s (toyBytes (map of_int xs) n)),
      fdsWriteRealVec_v9 = (\<lambda>xs n c s. owrite s (toyBytes (map ucast xs) n)),
      fdsStream_v2 = (\<lambda>call xs s. owrite s (toyBytes (map of_int xs) (length xs)))\<rparr>"

definition byte_at :: "ifstream \<Rightarrow> nat \<Rightarrow> byte" where
  "byte_at s k = (if k < length (icontent s) then icontent s ! k else 0)"

definition toyInts :: "int decoder" where
  "toyInts s pos startRow len nrows = Some (\<lambda>i. uint (byte_at s (pos + startRow + i)), s)"

definition toyStrings :: "string decoder" where
  "toyStrings s pos startRow len nrows =
     Some (\<lambda>i. [char_of (unat (byte_at s (pos + startRow + i)))], s\<lparr>gpos := pos + nrows\<rparr>)"

definition toyReals :: "64 word decoder" where
  "toyReals s pos startRow len nrows = Some (\<lambda>i. ucast (byte_at s (pos + startRow + i)), s)"

definition toyFactors :: factor_decoder where
  "toyFactors s pos startRow len nrows = Some (([], \<lambda>i. uint (byte_at s (pos + startRow + i))), s)"

definition toyReaders :: readers where
  "toyReaders =
     \<lparr>junk = (\<lambda>a i. 0),
      fdsReadCharVec_v6 = toyStrings,
      fdsReadFactorVec_v7 = toyFactors,
      fdsReadIntVec_v8 = toyInts,
      fdsReadRealVec_v9 = toyReals,
      fdsReadLogicalVec_v10 = toyInts,
      fdsReadCharVec_v1 = toyStrings,
      fdsReadIntVec_v2 = toyInts,
      fdsReadRealVec_v3 = toyReals,
      fdsReadLogicalVec_v4 = toyInts,
      fdsReadFactorVec_v5 = toyFactors\<rparr>"

text \<open>A table of three integer columns with the key \<open>a\<close>.\<close>

definition abcTable :: "(string \<times> SEXP) list" where
  "abcTable = [(''a'', INTSXP [1, 2, 3]), (''b'', INTSXP [4, 5, 6]), (''c'', INTSXP [7, 8, 9])]"

text \<open>A table whose second column is shorter than the first.\<close>

definition raggedTable :: "(string \<times> SEXP) list" where
  "raggedTable = [(''a'', INTSXP [1, 2, 3]), (''b'', INTSXP [9])]"

text \<open>
  The file that the writer makes of \<open>abcTable\<close> with the key \<open>a\<close> and the example
  codecs. \<open>abcHead\<close> is the header of 166 bytes (\<open>205\<close> where the block was never
  written) and the three names; the column-position index follows at 169, its first byte is
  \<open>193\<close> and \<open>abcTail\<close> is the rest of it (the columns lie at 193, 196 and 199) and
  the nine values.
\<close>

definition abcHead :: "byte list" where
  "abcHead =
     [3, 0, 0, 0, 1, 0, 0, 0, 1, 0, 0, 0, 1, 0, 0, 0, 29, 167, 69, 178, 248, 18, 28, 169,
      169, 0, 0, 0, 0, 0, 0, 0, 205, 205, 205, 205, 205, 205, 205, 205, 205, 205, 205, 205,
      205, 205, 205, 205, 205, 205, 205, 205, 205, 205, 205, 205, 205, 205, 205, 205, 205,
      205, 205, 205, 205, 205, 205, 205, 205, 205, 205, 205, 205, 205, 205, 205, 205, 205,
      205, 205, 205, 205, 205, 205, 205, 205, 205, 205, 3, 0, 0, 0, 0, 0, 0, 0, 205, 205,
      205, 205, 205, 205, 205, 205, 205, 205, 205, 205, 205, 205, 205, 205, 205, 205, 205,
      205, 205, 205, 205, 205, 205, 205, 205, 205, 205, 205, 205, 205, 205, 205, 205, 205,
      205, 205, 205, 205, 205, 205, 205, 205, 205, 205, 205, 205, 205, 205, 205, 205, 205,
      205, 205, 205, 1, 0, 0, 0, 0, 0, 0, 0, 8, 0, 8, 0, 8, 0, 97, 98, 99]"

definition abcTail :: "byte list" where
  "abcTail =
     [0, 0, 0, 0, 0, 0, 0, 196, 0, 0, 0, 0, 0, 0, 0, 199, 0, 0, 0, 0, 0, 0, 0, 1, 2, 3, 4,
      5, 6, 7, 8, 9]"

definition abcFile :: "byte list" where
  "abcFile = abcHead @ 193 # abcTail"

text \<open>
  The same file with one bit of the first entry of the column-position index flipped
  (\<open>193\<close> to \<open>197\<close>): the positions read 197, 196, 199.
\<close>

definition flippedFile :: "byte list" where
  "flippedFile = abcHead @ 197 # abcTail"

text \<open>
  Files of the legacy format: two integer columns \<open>a\<close> and \<open>b\<close> of three rows, the
  key \<open>a\<close>. The two sizes, the key, the two types and the number of rows come first, then
  the positions of the two columns, the names and the six values. The columns lie at 36
  and 39.
\<close>

definition legacyHead :: "byte list" where
  "legacyHead = [2, 0, 1, 0, 0, 0, 2, 0, 2, 0, 3, 0, 0, 0, 0, 0, 0, 0]"

definition legacyData :: "byte list" where
  "legacyData = [97, 98, 1, 2, 3, 4, 5, 6]"

definition legacyFile :: "byte list" where
  "legacyFile = legacyHead @ [36, 0, 0, 0, 0, 0, 0, 0, 39, 0, 0, 0, 0, 0, 0, 0] @ legacyData"

text \<open>The legacy file with the two column positions exchanged, and with both equal.\<close>

definition legacySwapped :: "byte list" where
  "legacySwapped = legacyHead @ [39, 0, 0, 0, 0, 0, 0, 0, 36, 0, 0, 0, 0, 0, 0, 0] @ legacyData"

definition legacyEqual :: "byte list" where
  "legacyEqual = legacyHead @ [36, 0, 0, 0, 0, 0, 0, 0, 36, 0, 0, 0, 0, 0, 0, 0] @ legacyData"

text \<open>
  What \<^verbatim>\<open>fstRead\<close> holds of \<open>abcFile\<close> when it comes to the rows, all columns selected.
\<close>

definition abcMeta :: table_meta where
  "abcMeta =
     \<lparr>tm_dataMeta = peek abcFile 24 142, tm_nrOfCols = 3, tm_keyLength = 1,
      tm_colNames = [''a'', ''b'', ''c''], tm_blockPos = peek abcFile 169 24,
      tm_colIndex = [0, 1, 2],
      tm_file = \<lparr>icontent = abcFile, gpos = 193, ifail = False\<rparr>\<rparr>"

text \<open>
  A header of the current format that gives the version 2, and the head of \<open>abcFile\<close>
  with the number of chunks set to 2.
\<close>

definition newerFile :: "byte list" where
  "newerFile = [3, 0, 0, 0, 1, 0, 0, 0, 2, 0, 0, 0, 1, 0, 0, 0, 29, 167, 69, 178, 248, 18, 28, 169]"

definition twoChunkFile :: "byte list" where
  "twoChunkFile = take 152 abcHead @ [2, 0, 0, 0] @ drop 156 abcHead"

section \<open>Bytes and buffers\<close>

lemma length_le_bytes [simp]: "length (le_bytes n v) = n"
  by (induction n arbitrary: v) auto

lemma le_nat_le_bytes: "le_nat (le_bytes n v) = v mod 256 ^ n"
proof (induction n arbitrary: v)
  case 0
  then show ?case by simp
next
  case (Suc n)
  have "unat (of_nat (v mod 256) :: byte) = v mod 256"
    by (simp add: unat_of_nat)
  then show ?case
    using Suc by (simp add: mod_mult2_eq)
qed

lemma length_concat_le_bytes [simp]: "length (concat (map (le_bytes n) xs)) = n * length xs"
  by (induction xs) auto

lemma length_poke [simp]: "length (poke buf off bs) = length buf"
  by (simp add: poke_def)

lemma nth_poke:
  "i < length buf \<Longrightarrow>
   poke buf off bs ! i = (if off \<le> i \<and> i < off + length bs then bs ! (i - off) else buf ! i)"
  by (simp add: poke_def)

lemma peek_poke_eq:
  assumes "n = length bs" "off + n \<le> length buf"
  shows "peek (poke buf off bs) off n = bs"
  using assms by (intro nth_equalityI) (auto simp: peek_def nth_poke)

lemma peek_poke_other:
  assumes "off' + n \<le> off \<or> off + length bs \<le> off'"
  shows "peek (poke buf off bs) off' n = peek buf off' n"
  using assms by (intro nth_equalityI) (auto simp: peek_def nth_poke)

lemma peek_peek:
  assumes "off + k \<le> n"
  shows "peek (peek f p n) off k = peek f (p + off) k"
  using assms by (simp add: peek_def drop_take ac_simps)

lemma length_write_at: "length (write_at f p bs) = max (length f) (p + length bs)"
  by (auto simp: write_at_def)

lemma peek_write_at_eq:
  assumes "n = length bs"
  shows "peek (write_at f p bs) p n = bs"
  using assms by (simp add: write_at_def peek_def)

lemma peek_write_at_0:
  assumes "off + n \<le> length h"
  shows "peek (write_at f 0 h) off n = peek h off n"
  using assms by (simp add: peek_def write_at_def)

lemma peek_write_at_before:
  assumes "off + n \<le> p" "off + n \<le> length f"
  shows "peek (write_at f p bs) off n = peek f off n"
  using assms by (intro nth_equalityI) (auto simp: peek_def write_at_def nth_append)

lemma tellp_owrite: "tellp (owrite s bs) = ppos s + length bs"
  by (simp add: tellp_def owrite_def)


section \<open>The writer: the metadata block and the loops\<close>

lemma FindKey_from_absent: "item \<notin> set colNameList \<Longrightarrow> FindKey_from colNameList item k = - 1"
  by (induction colNameList arbitrary: k) auto

lemma length_storeKeys [simp]: "length (storeKeys cn ks i m) = length m"
  by (induction ks arbitrary: i m) auto

lemma peek_storeKeys_below:
  "off + n \<le> 156 + 4 * i \<Longrightarrow> peek (storeKeys cn ks i m) off n = peek m off n"
  by (induction ks arbitrary: i m) (auto simp: peek_poke_other)

lemma peek_storeKeys_at:
  assumes "j < length ks" "156 + 4 * (i + length ks) \<le> length m"
  shows "peek (storeKeys cn ks i m) (156 + 4 * (i + j)) 4 =
         le_bytes 4 (u32_of_int (FindKey cn (ks ! j)))"
  using assms
proof (induction ks arbitrary: i j m)
  case Nil
  then show ?case by simp
next
  case (Cons k ks)
  show ?case
  proof (cases j)
    case 0
    then show ?thesis
      using Cons.prems by (simp add: peek_storeKeys_below peek_poke_eq)
  next
    case (Suc j')
    then show ?thesis
      using Cons.prems
        Cons.IH [of j' "Suc i" "poke m (156 + 4 * i) (le_bytes 4 (u32_of_int (FindKey cn k)))"]
      by simp
  qed
qed

lemma length_initMetaData [simp]:
  "length (initMetaData w cn kn nr) =
     156 + 4 * (case kn of None \<Rightarrow> 0 | Some ks \<Rightarrow> length ks) + 2 * length cn"
  by (simp add: initMetaData_def Let_def)

lemma peek_initMetaData:
  "peek (initMetaData w cn kn nr) 8 4 = le_bytes 4 FST_VERSION"
  "peek (initMetaData w cn kn nr) 12 4 = le_bytes 4 1"
  "peek (initMetaData w cn kn nr) 16 8 = le_bytes 8 FST_FILE_ID"
  "peek (initMetaData w cn kn nr) 88 8 = le_bytes 8 nr"
  "peek (initMetaData w cn kn nr) 152 4 = le_bytes 4 1"
  by (simp_all add: initMetaData_def Let_def peek_poke_other peek_poke_eq)

lemma peek_initMetaData_key:
  assumes "j < length ks"
  shows "peek (initMetaData w cn (Some ks) nr) (156 + 4 * j) 4 =
         le_bytes 4 (u32_of_int (FindKey cn (ks ! j)))"
proof -
  have "peek (storeKeys cn ks 0 (map (uninit w) [0..<156 + 4 * length ks + 2 * length cn]))
          (156 + 4 * (0 + j)) 4 = le_bytes 4 (u32_of_int (FindKey cn (ks ! j)))"
    using assms by (intro peek_storeKeys_at) simp_all
  moreover have "ks \<noteq> []"
    using assms by auto
  ultimately show ?thesis
    by (simp add: initMetaData_def Let_def peek_poke_other)
qed

lemma writeColumns_step:
  assumes "writeColumns w n c at (colVec # rest) colNr (m, pd, s) = Inr r"
  shows "\<exists>t s'. writeColumns w n c at rest (Suc colNr)
           (poke m (at + 2 * colNr) (le_bytes 2 t), pd[colNr := tellp s], s') = Inr r"
  using assms by (cases colVec) (auto simp: Let_def)

lemma writeColumns_frame:
  assumes "writeColumns w n c at cols colNr (m, pd, s) = Inr (m', pd', s')"
  shows "length m' = length m \<and> length pd' = length pd
    \<and> (\<forall>off k. off + k \<le> at + 2 * colNr \<longrightarrow> peek m' off k = peek m off k)
    \<and> (\<forall>j < colNr. pd' ! j = pd ! j)"
  using assms
proof (induction cols arbitrary: colNr m pd s)
  case Nil
  then show ?case by simp
next
  case (Cons colVec rest)
  from writeColumns_step [OF Cons.prems] obtain t s1 where
    step: "writeColumns w n c at rest (Suc colNr)
           (poke m (at + 2 * colNr) (le_bytes 2 t), pd[colNr := tellp s], s1) = Inr (m', pd', s')"
    by blast
  from Cons.IH [OF step] show ?case
    by (auto simp: peek_poke_other)
qed

lemma writeColumns_first:
  assumes "writeColumns w n c at (colVec # rest) colNr (m, pd, s) = Inr (m', pd', s')"
    and "colNr < length pd"
  shows "pd' ! colNr = tellp s"
proof -
  from writeColumns_step [OF assms(1)] obtain t s1 where
    step: "writeColumns w n c at rest (Suc colNr)
           (poke m (at + 2 * colNr) (le_bytes 2 t), pd[colNr := tellp s], s1) = Inr (m', pd', s')"
    by blast
  from writeColumns_frame [OF step] have "pd' ! colNr = (pd[colNr := tellp s]) ! colNr"
    by simp
  then show ?thesis using assms(2) by simp
qed

lemma writeColumns_known:
  assumes "list_all knownType cols"
  shows "\<exists>m' pd'. writeColumns w n c at cols colNr (m, pd, s) =
           Inr (m', pd', fold (columnCodec w n c) cols s)"
  using assms
proof (induction cols arbitrary: colNr m pd s)
  case Nil
  then show ?case by simp
next
  case (Cons colVec rest)
  then have rest: "list_all knownType rest" and known: "knownType colVec"
    by simp_all
  from known have "\<exists>t. writeColumns w n c at (colVec # rest) colNr (m, pd, s) =
      writeColumns w n c at rest (Suc colNr)
        (poke m (at + 2 * colNr) (le_bytes 2 t), pd[colNr := tellp s], columnCodec w n c colVec s)"
    by (cases colVec; simp add: knownType_def columnCodec_def Let_def; blast)
  then obtain t where "writeColumns w n c at (colVec # rest) colNr (m, pd, s) =
      writeColumns w n c at rest (Suc colNr)
        (poke m (at + 2 * colNr) (le_bytes 2 t), pd[colNr := tellp s], columnCodec w n c colVec s)"
    by blast
  with Cons.IH [OF rest] show ?case
    by simp
qed

lemma writeColumns_step_codec:
  assumes "writeColumns w n c at (colVec # rest) colNr (m, pd, s) = Inr r"
  shows "\<exists>t. writeColumns w n c at rest (Suc colNr)
           (poke m (at + 2 * colNr) (le_bytes 2 t), pd[colNr := tellp s], columnCodec w n c colVec s)
             = Inr r"
  using assms by (cases colVec) (auto simp: Let_def columnCodec_def)

text \<open>
  Every entry of \<^verbatim>\<open>positionData\<close> that the loop comes to is the put position before the
  codec call of its column.
\<close>

lemma writeColumns_positions:
  assumes "writeColumns w n c at cols colNr (m, pd, s) = Inr (m', pd', s')"
    and "colNr + length cols \<le> length pd"
    and "i < length cols"
  shows "pd' ! (colNr + i) = tellp (fold (columnCodec w n c) (take i cols) s)"
  using assms
proof (induction cols arbitrary: colNr m pd s i)
  case Nil
  then show ?case by simp
next
  case (Cons colVec rest)
  show ?case
  proof (cases i)
    case 0
    have "pd' ! colNr = tellp s"
      using Cons.prems(1) by (rule writeColumns_first) (use Cons.prems(2) in simp)
    then show ?thesis
      by (simp add: 0)
  next
    case (Suc i')
    from writeColumns_step_codec [OF Cons.prems(1)] obtain t where
      step: "writeColumns w n c at rest (Suc colNr)
           (poke m (at + 2 * colNr) (le_bytes 2 t), pd[colNr := tellp s], columnCodec w n c colVec s)
             = Inr (m', pd', s')"
      by blast
    have "pd' ! (Suc colNr + i') =
          tellp (fold (columnCodec w n c) (take i' rest) (columnCodec w n c colVec s))"
      using step by (rule Cons.IH) (use Cons.prems(2,3) Suc in simp_all)
    then show ?thesis
      by (simp add: Suc)
  qed
qed

lemma take_drop_concat_chunk:
  assumes "\<And>x. length (g x) = n" and "i < length xs"
  shows "take n (drop (n * i) (concat (map g xs))) = g (xs ! i)"
  using assms(2)
proof (induction xs arbitrary: i)
  case Nil
  then show ?case by simp
next
  case (Cons x xs)
  show ?case
  proof (cases i)
    case 0
    then show ?thesis by (simp add: assms(1))
  next
    case (Suc i')
    with Cons.prems have "i' < length xs" by simp
    from Cons.IH [OF this] show ?thesis
      by (simp add: Suc assms(1))
  qed
qed

section \<open>The strategy of the logical codec\<close>

lemma sdiv_nonneg_eq_div:
  fixes a b :: int
  assumes "0 \<le> a" "0 < b"
  shows "a sdiv b = a div b"
  using assms by (simp add: signed_divide_int_def sgn_if)

text \<open>
  C5. A logical column written at a level in \<open>[0, 100]\<close>: level 0 streams through the
  fixed-ratio LOGIC64 compressor alone; levels 1 to 50 use the composite of plain LOGIC64 and
  LZ4 over LOGIC64 at strength 100 (the maximum) with ratio \<open>2 * level\<close>; levels 51 to 100
  use the composite of LZ4 over LOGIC64 and ZSTD over LOGIC64 at strength
  \<open>30 + 7 * (level - 50) / 5\<close> with ratio \<open>2 * (level - 50)\<close>. Every case streams
  4-byte elements in blocks of 4096 logicals.
\<close>

theorem logical_strategy_by_level:
  assumes "0 \<le> level" "level \<le> 100"
  shows "fdsWriteLogicalVec_v10 n level =
     (if level = 0 then
        StreamUncompressed_v2 n 4 4096 (FixedRatioCompressor LOGIC64)
      else if level \<le> 50 then
        Streamcompressed_v2 n 4
          (StreamCompositeCompressor (SingleCompressor LOGIC64 0)
             (SingleCompressor LZ4_LOGIC64 100) (2 * level)) 4096 16384
      else
        Streamcompressed_v2 n 4
          (StreamCompositeCompressor (SingleCompressor LZ4_LOGIC64 100)
             (SingleCompressor ZSTD_LOGIC64 (30 + (7 * (level - 50)) div 5))
             (2 * (level - 50))) 4096 16384)"
proof -
  have "(7 * (level - 50)) sdiv 5 = (7 * (level - 50)) div 5" if "50 < level"
    using that by (intro sdiv_nonneg_eq_div) simp_all
  then show ?thesis
    using assms by (simp add: fdsWriteLogicalVec_v10_def BLOCKSIZE_LOGICAL_def Let_def)
qed

theorem logical_strategy_by_level_witness:
  "fdsWriteLogicalVec_v10 10 75 =
     Streamcompressed_v2 10 4
       (StreamCompositeCompressor (SingleCompressor LZ4_LOGIC64 100)
          (SingleCompressor ZSTD_LOGIC64 65) 50) 4096 16384"
  using logical_strategy_by_level [of 75 10] by simp

section \<open>The table writer\<close>

text \<open>\<^verbatim>\<open>fstStore\<close> with its stages named.\<close>

lemma fstStore_cases:
  "fstStore w canOpen tbl keyNames compression =
     (case compression of
        None \<Rightarrow> Inl BadCompression
      | Some compress \<Rightarrow>
          if compress < 0 \<or> compress > 100 then Inl BadCompression
          else if tbl = [] then Inl NoColumns
          else if Rf_length (snd (hd tbl)) = 0 then Inl NoData
          else if \<not> canOpen then Inl CreateError
          else
            (case writeColumns w (Rf_length (snd (hd tbl))) compress
                    (156 + 4 * (case keyNames of None \<Rightarrow> 0 | Some ks \<Rightarrow> length ks)) (map snd tbl) 0
                    (initMetaData w (map fst tbl) keyNames (Rf_length (snd (hd tbl))),
                     map (uninitPos w) [0..<length tbl], payloadStart w tbl keyNames) of
               Inl e \<Rightarrow> Inl e
             | Inr (m', pd', s4) \<Rightarrow>
                 Inr \<lparr>outFile = write_at (write_at (content s4) 0
                          (poke m' 24 (le_bytes 8 ((pd' ! 0 + 2 ^ 64 - 8 * length tbl) mod 2 ^ 64))))
                        ((pd' ! 0 + 2 ^ 64 - 8 * length tbl) mod 2 ^ 64)
                        (concat (map (le_bytes 8) pd')),
                      r_keyLength = (case keyNames of None \<Rightarrow> 0 | Some ks \<Rightarrow> length ks),
                      r_metaDataSize =
                        156 + 4 * (case keyNames of None \<Rightarrow> 0 | Some ks \<Rightarrow> length ks)
                          + 2 * length tbl,
                      positions = pd'\<rparr>))"
  unfolding fstStore_def payloadStart_def Let_def
  by (simp add: owrite_def seekp_def split: option.splits sum.splits)

lemma fstStore_InrE:
  assumes "fstStore w canOpen tbl keyNames compression = Inr r"
  obtains compress m' pd' s4 where
    "compression = Some compress" "0 \<le> compress" "compress \<le> 100" "tbl \<noteq> []"
    "Rf_length (snd (hd tbl)) \<noteq> 0" "canOpen"
    "writeColumns w (Rf_length (snd (hd tbl))) compress
       (156 + 4 * (case keyNames of None \<Rightarrow> 0 | Some ks \<Rightarrow> length ks)) (map snd tbl) 0
       (initMetaData w (map fst tbl) keyNames (Rf_length (snd (hd tbl))),
        map (uninitPos w) [0..<length tbl], payloadStart w tbl keyNames) = Inr (m', pd', s4)"
    "r = \<lparr>outFile = write_at (write_at (content s4) 0
                 (poke m' 24 (le_bytes 8 ((pd' ! 0 + 2 ^ 64 - 8 * length tbl) mod 2 ^ 64))))
               ((pd' ! 0 + 2 ^ 64 - 8 * length tbl) mod 2 ^ 64) (concat (map (le_bytes 8) pd')),
          r_keyLength = (case keyNames of None \<Rightarrow> 0 | Some ks \<Rightarrow> length ks),
          r_metaDataSize = 156 + 4 * (case keyNames of None \<Rightarrow> 0 | Some ks \<Rightarrow> length ks)
                             + 2 * length tbl,
          positions = pd'\<rparr>"
  using assms unfolding fstStore_cases
  by (auto split: option.splits if_splits sum.splits)

text \<open>
  The shape of the file after a successful write, when the codec of the column names has
  left the put position \<open>P\<close> at or behind the end of the metadata block: the block lies at
  the start of the file with \<open>P\<close> in its field \<^verbatim>\<open>chunkPos[0]\<close>, and the final
  \<^verbatim>\<open>positionData\<close> lies at \<open>P\<close>.
\<close>

lemma fstStore_shape:
  fixes tbl :: "(string \<times> SEXP) list" and keyNames :: "string list option" and w :: writers
  defines "K \<equiv> (case keyNames of None \<Rightarrow> 0 | Some ks \<Rightarrow> length ks)"
    and "C \<equiv> length tbl"
    and "P \<equiv> columnIndexOffset w tbl keyNames"
  assumes ok: "fstStore w canOpen tbl keyNames compression = Inr r"
    and after_head: "156 + 4 * K + 2 * C \<le> P"
    and small: "P < 2 ^ 64"
  shows "r_metaDataSize r = 156 + 4 * K + 2 * C"
    and "r_metaDataSize r \<le> length (outFile r)"
    and "length (positions r) = C"
    and "positions r ! 0 = P + 8 * C"
    and "peek (outFile r) 24 8 = le_bytes 8 P"
    and "peek (outFile r) P (8 * C) = concat (map (le_bytes 8) (positions r))"
    and "\<And>off k. off + k \<le> 156 + 4 * K \<Longrightarrow> off + k \<le> 24 \<or> 32 \<le> off \<Longrightarrow>
           peek (outFile r) off k =
           peek (initMetaData w (map fst tbl) keyNames (Rf_length (snd (hd tbl)))) off k"
proof -
  let ?nr = "Rf_length (snd (hd tbl))"
  let ?m7 = "initMetaData w (map fst tbl) keyNames ?nr"
  let ?pd = "map (uninitPos w) [0..<length tbl]"
  let ?s3 = "payloadStart w tbl keyNames"
  from ok obtain compress m' pd' s4 where
    ne: "tbl \<noteq> []"
    and loop: "writeColumns w ?nr compress (156 + 4 * K) (map snd tbl) 0 (?m7, ?pd, ?s3)
                 = Inr (m', pd', s4)"
    and r: "r = \<lparr>outFile = write_at (write_at (content s4) 0
                 (poke m' 24 (le_bytes 8 ((pd' ! 0 + 2 ^ 64 - 8 * length tbl) mod 2 ^ 64))))
               ((pd' ! 0 + 2 ^ 64 - 8 * length tbl) mod 2 ^ 64) (concat (map (le_bytes 8) pd')),
          r_keyLength = K, r_metaDataSize = 156 + 4 * K + 2 * length tbl, positions = pd'\<rparr>"
    unfolding K_def by (rule fstStore_InrE)
  from writeColumns_frame [OF loop]
  have len_m: "length m' = 156 + 4 * K + 2 * C"
    and len_pd: "length pd' = C"
    and keep: "\<And>off k. off + k \<le> 156 + 4 * K \<Longrightarrow> peek m' off k = peek ?m7 off k"
    by (simp_all add: K_def C_def)
  obtain colVec rest where cols: "map snd tbl = colVec # rest"
    using ne by (cases tbl) auto
  have "0 < length ?pd"
    using ne by simp
  with loop have "pd' ! 0 = tellp ?s3"
    unfolding cols by (rule writeColumns_first)
  moreover have "length (concat (map (le_bytes 8) ?pd)) = 8 * C"
    unfolding length_concat_le_bytes by (simp add: C_def)
  moreover have "P = ppos (fdsWriteCharVec_v6 w (map fst tbl) (length tbl) 0
       (owrite \<lparr>content = [], ppos = 0\<rparr> ?m7))"
    by (simp add: P_def columnIndexOffset_def tellp_def)
  ultimately have pd0: "pd' ! 0 = P + 8 * C"
    by (simp only: payloadStart_def tellp_owrite)
  have chunkPos: "(pd' ! 0 + 2 ^ 64 - 8 * length tbl) mod 2 ^ 64 = P"
    using small by (simp add: pd0 C_def)
  let ?header = "poke m' 24 (le_bytes 8 P)"
  let ?f5 = "write_at (content s4) 0 ?header"
  have out: "outFile r = write_at ?f5 P (concat (map (le_bytes 8) pd'))"
    unfolding r chunkPos by simp
  have len5: "156 + 4 * K + 2 * C \<le> length ?f5"
    by (simp add: length_write_at len_m)
  have head: "peek (outFile r) off k = peek ?header off k" if "off + k \<le> 156 + 4 * K + 2 * C" for off k
  proof -
    have "peek (outFile r) off k = peek ?f5 off k"
      unfolding out using that after_head len5 by (intro peek_write_at_before) simp_all
    also have "\<dots> = peek ?header off k"
      using that by (intro peek_write_at_0) (simp add: len_m)
    finally show ?thesis .
  qed
  show "peek (outFile r) off k = peek ?m7 off k"
    if "off + k \<le> 156 + 4 * K" "off + k \<le> 24 \<or> 32 \<le> off" for off k
  proof -
    have "peek (outFile r) off k = peek ?header off k"
      using that by (intro head) simp
    also have "\<dots> = peek m' off k"
      using that by (intro peek_poke_other) auto
    also have "\<dots> = peek ?m7 off k"
      using that by (intro keep) simp
    finally show ?thesis .
  qed
  show c1: "r_metaDataSize r = 156 + 4 * K + 2 * C"
    by (simp add: r C_def)
  show "r_metaDataSize r \<le> length (outFile r)"
    using len5 by (simp add: c1 out length_write_at)
  have "peek (outFile r) 24 8 = peek ?header 24 8"
    by (intro head) simp
  also have "\<dots> = le_bytes 8 P"
    by (intro peek_poke_eq) (simp_all add: len_m)
  finally show "peek (outFile r) 24 8 = le_bytes 8 P" .
  have pos: "positions r = pd'"
    by (simp add: r)
  show "peek (outFile r) P (8 * C) = concat (map (le_bytes 8) (positions r))"
    unfolding out pos by (intro peek_write_at_eq) (simp add: len_pd)
  show "length (positions r) = C"
    by (simp add: pos len_pd)
  show "positions r ! 0 = P + 8 * C"
    by (simp add: pos pd0)
qed

lemma fstStore_succeeds:
  assumes "0 \<le> compress" "compress \<le> 100" "tbl \<noteq> []" "Rf_length (snd (hd tbl)) \<noteq> 0"
    and "list_all knownType (map snd tbl)"
  shows "\<exists>m' pd'.
     length m' = 156 + 4 * (case keyNames of None \<Rightarrow> 0 | Some ks \<Rightarrow> length ks) + 2 * length tbl
     \<and> fstStore w True tbl keyNames (Some compress) =
       Inr \<lparr>outFile = write_at (write_at
                 (content (fold (columnCodec w (Rf_length (snd (hd tbl))) compress) (map snd tbl)
                            (payloadStart w tbl keyNames))) 0
                 (poke m' 24 (le_bytes 8 ((pd' ! 0 + 2 ^ 64 - 8 * length tbl) mod 2 ^ 64))))
               ((pd' ! 0 + 2 ^ 64 - 8 * length tbl) mod 2 ^ 64) (concat (map (le_bytes 8) pd')),
          r_keyLength = (case keyNames of None \<Rightarrow> 0 | Some ks \<Rightarrow> length ks),
          r_metaDataSize = 156 + 4 * (case keyNames of None \<Rightarrow> 0 | Some ks \<Rightarrow> length ks)
                             + 2 * length tbl,
          positions = pd'\<rparr>"
proof -
  from writeColumns_known [OF assms(5)] obtain m' pd' where
    loop: "writeColumns w (Rf_length (snd (hd tbl))) compress
       (156 + 4 * (case keyNames of None \<Rightarrow> 0 | Some ks \<Rightarrow> length ks)) (map snd tbl) 0
       (initMetaData w (map fst tbl) keyNames (Rf_length (snd (hd tbl))),
        map (uninitPos w) [0..<length tbl], payloadStart w tbl keyNames)
       = Inr (m', pd', fold (columnCodec w (Rf_length (snd (hd tbl))) compress) (map snd tbl)
                         (payloadStart w tbl keyNames))"
    by blast
  have "fstStore w True tbl keyNames (Some compress) =
       Inr \<lparr>outFile = write_at (write_at
                 (content (fold (columnCodec w (Rf_length (snd (hd tbl))) compress) (map snd tbl)
                            (payloadStart w tbl keyNames))) 0
                 (poke m' 24 (le_bytes 8 ((pd' ! 0 + 2 ^ 64 - 8 * length tbl) mod 2 ^ 64))))
               ((pd' ! 0 + 2 ^ 64 - 8 * length tbl) mod 2 ^ 64) (concat (map (le_bytes 8) pd')),
          r_keyLength = (case keyNames of None \<Rightarrow> 0 | Some ks \<Rightarrow> length ks),
          r_metaDataSize = 156 + 4 * (case keyNames of None \<Rightarrow> 0 | Some ks \<Rightarrow> length ks)
                             + 2 * length tbl,
          positions = pd'\<rparr>"
    using assms(1-4) by (simp add: fstStore_cases loop)
  moreover from writeColumns_frame [OF loop]
  have "length m' = 156 + 4 * (case keyNames of None \<Rightarrow> 0 | Some ks \<Rightarrow> length ks) + 2 * length tbl"
    by simp
  ultimately show ?thesis by blast
qed

lemma le_bytes_4:
  "le_bytes 4 v = [of_nat (v mod 256), of_nat (v div 256 mod 256),
     of_nat (v div 256 div 256 mod 256), of_nat (v div 256 div 256 div 256 mod 256)]"
proof -
  have "le_bytes (Suc (Suc (Suc (Suc 0)))) v = [of_nat (v mod 256), of_nat (v div 256 mod 256),
     of_nat (v div 256 div 256 mod 256), of_nat (v div 256 div 256 div 256 mod 256)]"
    by simp
  moreover have "(4::nat) = Suc (Suc (Suc (Suc 0)))"
    by simp
  ultimately show ?thesis
    by (simp only:)
qed

lemma le_bytes_8:
  "le_bytes 8 v = [of_nat (v mod 256), of_nat (v div 256 mod 256),
     of_nat (v div 256 div 256 mod 256), of_nat (v div 256 div 256 div 256 mod 256),
     of_nat (v div 256 div 256 div 256 div 256 mod 256),
     of_nat (v div 256 div 256 div 256 div 256 div 256 mod 256),
     of_nat (v div 256 div 256 div 256 div 256 div 256 div 256 mod 256),
     of_nat (v div 256 div 256 div 256 div 256 div 256 div 256 div 256 mod 256)]"
proof -
  have "le_bytes (Suc (Suc (Suc (Suc (Suc (Suc (Suc (Suc 0)))))))) v =
    [of_nat (v mod 256), of_nat (v div 256 mod 256),
     of_nat (v div 256 div 256 mod 256), of_nat (v div 256 div 256 div 256 mod 256),
     of_nat (v div 256 div 256 div 256 div 256 mod 256),
     of_nat (v div 256 div 256 div 256 div 256 div 256 mod 256),
     of_nat (v div 256 div 256 div 256 div 256 div 256 div 256 mod 256),
     of_nat (v div 256 div 256 div 256 div 256 div 256 div 256 div 256 mod 256)]"
    by simp
  moreover have "(8::nat) = Suc (Suc (Suc (Suc (Suc (Suc (Suc (Suc 0)))))))"
    by simp
  ultimately show ?thesis
    by (simp only:)
qed

text \<open>
  The final \<^verbatim>\<open>positionData\<close> of a successful write, entry by entry: the put position
  before the codec call of each column.
\<close>

lemma fstStore_index:
  assumes ok: "fstStore w canOpen tbl keyNames compression = Inr r"
  shows "\<exists>compress. compression = Some compress \<and> 0 \<le> compress \<and> compress \<le> 100
    \<and> positions r = map (columnPosition w tbl keyNames compress) [0..<length tbl]"
proof -
  let ?nr = "Rf_length (snd (hd tbl))"
  from ok obtain compress m' pd' s4 where
    c: "compression = Some compress" "0 \<le> compress" "compress \<le> 100"
    and loop: "writeColumns w ?nr compress
       (156 + 4 * (case keyNames of None \<Rightarrow> 0 | Some ks \<Rightarrow> length ks)) (map snd tbl) 0
       (initMetaData w (map fst tbl) keyNames ?nr,
        map (uninitPos w) [0..<length tbl], payloadStart w tbl keyNames) = Inr (m', pd', s4)"
    and r: "positions r = pd'"
    by (rule fstStore_InrE) simp
  from writeColumns_frame [OF loop] have len: "length pd' = length tbl"
    by simp
  have "pd' ! i = columnPosition w tbl keyNames compress i" if "i < length tbl" for i
    using writeColumns_positions [OF loop, of i] that by (simp add: columnPosition_def)
  then have "pd' = map (columnPosition w tbl keyNames compress) [0..<length tbl]"
    by (intro nth_equalityI) (simp_all add: len)
  with c r show ?thesis by blast
qed

lemma le_bytes_minus_one: "le_bytes 4 (u32_of_int (- 1)) = [255, 255, 255, 255]"
  by (simp add: le_bytes_4 u32_of_int_def)

lemma int_of_u32_minus_one: "int_of_u32 (le_nat [255, 255, 255, 255]) = - 1"
  by (simp add: int_of_u32_def)

text \<open>
  C6. After a successful write of a table with \<open>K\<close> key columns and \<open>C\<close> columns the
  metadata block has \<open>156 + 4 * K + 2 * C\<close> bytes and lies at the start of the file, with
  \<^verbatim>\<open>FST_VERSION\<close> at offset 8, \<open>nrOfChunksPerIndexRow = 1\<close> at 12, the file ID at 16,
  \<open>chunkRows[0] = nrOfRows\<close> at 88 and \<open>nrOfChunks = 1\<close> at 152. Its field
  \<^verbatim>\<open>chunkPos[0]\<close> at offset 24 holds \<open>P\<close>, the offset at which the column-position index
  was first written, which is the position of the first column minus \<open>8 * C\<close>. The
  \<open>8 * C\<close> bytes of the file at \<open>P\<close> are the filled column-position index: for every
  column \<open>i\<close> the 8 bytes at \<open>P + 8 * i\<close> are the little-endian put position of the
  stream before the codec call of column \<open>i\<close>, and nothing of what was in the array
  when it was first written there is left. The codec of the column names is taken to leave
  the put position at or behind the end of the metadata block and below \<open>2 ^ 64\<close>; the
  number of rows is an \<^verbatim>\<open>int\<close>.
\<close>

theorem fstStore_header_and_index:
  fixes tbl :: "(string \<times> SEXP) list" and keyNames :: "string list option" and w :: writers
  defines "K \<equiv> (case keyNames of None \<Rightarrow> 0 | Some ks \<Rightarrow> length ks)"
    and "C \<equiv> length tbl"
    and "P \<equiv> columnIndexOffset w tbl keyNames"
  assumes ok: "fstStore w canOpen tbl keyNames compression = Inr r"
    and after_head: "156 + 4 * K + 2 * C \<le> P"
    and small: "P < 2 ^ 64"
    and rows: "Rf_length (snd (hd tbl)) < 2 ^ 31"
  shows "r_metaDataSize r = 156 + 4 * K + 2 * C
    \<and> r_metaDataSize r \<le> length (outFile r)
    \<and> u_at (outFile r) 8 4 = FST_VERSION
    \<and> u_at (outFile r) 12 4 = 1
    \<and> u_at (outFile r) 16 8 = FST_FILE_ID
    \<and> u_at (outFile r) 88 8 = Rf_length (snd (hd tbl))
    \<and> u_at (outFile r) 152 4 = 1
    \<and> u_at (outFile r) 24 8 = P
    \<and> length (positions r) = C
    \<and> positions r ! 0 = P + 8 * C
    \<and> peek (outFile r) P (8 * C) = concat (map (le_bytes 8) (positions r))
    \<and> (\<exists>compress. compression = Some compress
          \<and> positions r = map (columnPosition w tbl keyNames compress) [0..<C]
          \<and> peek (outFile r) P (8 * C) =
              concat (map (\<lambda>i. le_bytes 8 (columnPosition w tbl keyNames compress i)) [0..<C])
          \<and> (\<forall>i<C. peek (outFile r) (P + 8 * i) 8 =
                       le_bytes 8 (columnPosition w tbl keyNames compress i)))"
proof -
  note shape = fstStore_shape [OF ok after_head [unfolded K_def C_def P_def] small [unfolded P_def],
      folded K_def C_def P_def]
  note fixed = shape(7)
  have c3: "u_at (outFile r) 8 4 = FST_VERSION"
    by (simp add: u_at_def fixed peek_initMetaData le_nat_le_bytes FST_VERSION_def)
  have c4: "u_at (outFile r) 12 4 = 1"
    by (simp add: u_at_def fixed peek_initMetaData le_nat_le_bytes)
  have c5: "u_at (outFile r) 16 8 = FST_FILE_ID"
    by (simp add: u_at_def fixed peek_initMetaData le_nat_le_bytes FST_FILE_ID_def)
  have c6: "u_at (outFile r) 88 8 = Rf_length (snd (hd tbl))"
    using rows by (simp add: u_at_def fixed peek_initMetaData le_nat_le_bytes)
  have c7: "u_at (outFile r) 152 4 = 1"
    by (simp add: u_at_def fixed peek_initMetaData le_nat_le_bytes)
  have c8: "u_at (outFile r) 24 8 = P"
    using small by (simp add: u_at_def shape(5) le_nat_le_bytes)
  from fstStore_index [OF ok] obtain compress where
    some: "compression = Some compress"
    and filled: "positions r = map (columnPosition w tbl keyNames compress) [0..<C]"
    unfolding C_def by blast
  let ?entry = "\<lambda>i. le_bytes 8 (columnPosition w tbl keyNames compress i)"
  have index: "peek (outFile r) P (8 * C) = concat (map ?entry [0..<C])"
    unfolding shape(6) filled by (simp add: comp_def)
  have entry: "peek (outFile r) (P + 8 * i) 8 = ?entry i" if "i < C" for i
  proof -
    have "peek (outFile r) (P + 8 * i) 8 = peek (peek (outFile r) P (8 * C)) (8 * i) 8"
      using that by (intro peek_peek [symmetric]) simp
    also have "\<dots> = take 8 (drop (8 * i) (concat (map ?entry [0..<C])))"
      unfolding index by (simp add: peek_def)
    also have "\<dots> = ?entry ([0..<C] ! i)"
      using that by (intro take_drop_concat_chunk) simp_all
    finally show ?thesis
      using that by simp
  qed
  from some filled index entry
  have c9: "\<exists>compress. compression = Some compress
          \<and> positions r = map (columnPosition w tbl keyNames compress) [0..<C]
          \<and> peek (outFile r) P (8 * C) =
              concat (map (\<lambda>i. le_bytes 8 (columnPosition w tbl keyNames compress i)) [0..<C])
          \<and> (\<forall>i<C. peek (outFile r) (P + 8 * i) 8 =
                       le_bytes 8 (columnPosition w tbl keyNames compress i))"
    by blast
  show ?thesis
    using shape(1,2,3,4,6) c3 c4 c5 c6 c7 c8 c9 by blast
qed

theorem fstStore_header_and_index_witness:
  "\<exists>r. fstStore toyWriters True abcTable (Some [''a'']) (Some 0) = Inr r
     \<and> r_metaDataSize r = 166
     \<and> u_at (outFile r) 8 4 = 1
     \<and> u_at (outFile r) 16 8 = 0xa91c12f8b245a71d
     \<and> u_at (outFile r) 88 8 = 3
     \<and> u_at (outFile r) 24 8 = 169
     \<and> positions r = [193, 196, 199]
     \<and> peek (outFile r) 169 24 =
         [193, 0, 0, 0, 0, 0, 0, 0, 196, 0, 0, 0, 0, 0, 0, 0, 199, 0, 0, 0, 0, 0, 0, 0]
     \<and> peek (outFile r) 177 8 = [196, 0, 0, 0, 0, 0, 0, 0]
     \<and> peek (outFile r) 185 8 = [199, 0, 0, 0, 0, 0, 0, 0]"
proof -
  have P: "columnIndexOffset toyWriters abcTable (Some [''a'']) = 169"
    by (simp add: columnIndexOffset_def toyWriters_def abcTable_def tellp_def owrite_def toyBytes_def)
  have pos: "map (columnPosition toyWriters abcTable (Some [''a'']) 0) [0..<3] = [193, 196, 199]"
    by (simp add: columnPosition_def payloadStart_def columnCodec_def toyWriters_def abcTable_def
        tellp_def owrite_def toyBytes_def upt_conv_Cons)
  have len: "length abcTable = 3"
    by (simp add: abcTable_def)
  have hd: "Rf_length (snd (hd abcTable)) = 3"
    by (simp add: abcTable_def)
  obtain r where ok: "fstStore toyWriters True abcTable (Some [''a'']) (Some 0) = Inr r"
    using fstStore_succeeds [where compress = 0 and tbl = abcTable and w = toyWriters
        and keyNames = "Some [''a'']"]
    by (auto simp: abcTable_def knownType_def)
  from fstStore_header_and_index [OF ok]
  have all: "r_metaDataSize r = 166 \<and> u_at (outFile r) 8 4 = 1
     \<and> u_at (outFile r) 16 8 = 0xa91c12f8b245a71d
     \<and> u_at (outFile r) 88 8 = 3
     \<and> u_at (outFile r) 24 8 = 169
     \<and> positions r = map (columnPosition toyWriters abcTable (Some [''a'']) 0) [0..<3]
     \<and> peek (outFile r) 169 24 =
         concat (map (le_bytes 8) (map (columnPosition toyWriters abcTable (Some [''a'']) 0) [0..<3]))
     \<and> (\<forall>i<3. peek (outFile r) (169 + 8 * i) 8 =
           le_bytes 8 (map (columnPosition toyWriters abcTable (Some [''a'']) 0) [0..<3] ! i))"
    by (simp add: P len hd FST_VERSION_def FST_FILE_ID_def comp_def)
  then have entries: "\<forall>i<3. peek (outFile r) (169 + 8 * i) 8 = le_bytes 8 ([193, 196, 199] ! i)"
    unfolding pos by blast
  from entries have "peek (outFile r) (169 + 8 * 1) 8 = le_bytes 8 ([193, 196, 199] ! 1)"
    by (rule allE [of _ 1]) simp
  then have e1: "peek (outFile r) 177 8 = [196, 0, 0, 0, 0, 0, 0, 0]"
    by (simp add: le_bytes_8)
  from entries have "peek (outFile r) (169 + 8 * 2) 8 = le_bytes 8 ([193, 196, 199] ! 2)"
    by (rule allE [of _ 2]) simp
  then have e2: "peek (outFile r) 185 8 = [199, 0, 0, 0, 0, 0, 0, 0]"
    by (simp add: le_bytes_8)
  from all have "positions r = [193, 196, 199]"
    and "peek (outFile r) 169 24 =
         [193, 0, 0, 0, 0, 0, 0, 0, 196, 0, 0, 0, 0, 0, 0, 0, 199, 0, 0, 0, 0, 0, 0, 0]"
    unfolding pos by (simp_all add: le_bytes_8)
  with all e1 e2 ok show ?thesis by blast
qed

text \<open>
  C9. A key name that is the name of no column raises no error: \<^verbatim>\<open>FindKey\<close> returns
  \<open>-1\<close>, the write succeeds, and the slot \<^verbatim>\<open>keyColPos[j]\<close> of the header of the file
  holds \<open>-1\<close> (the bytes \<open>ff ff ff ff\<close>), which is no index of a column. The codec of
  the column names is taken to leave the put position at or behind the end of the metadata
  block and below \<open>2 ^ 64\<close>.
\<close>

theorem fstStore_unknown_key:
  fixes tbl :: "(string \<times> SEXP) list" and ks :: "string list" and w :: writers
  defines "C \<equiv> length tbl"
    and "P \<equiv> columnIndexOffset w tbl (Some ks)"
  assumes key: "j < length ks" "ks ! j \<notin> fst ` set tbl"
    and guards: "0 \<le> compress" "compress \<le> 100" "tbl \<noteq> []" "Rf_length (snd (hd tbl)) \<noteq> 0"
      "list_all knownType (map snd tbl)"
    and after_head: "156 + 4 * length ks + 2 * C \<le> P"
    and small: "P < 2 ^ 64"
  shows "FindKey (map fst tbl) (ks ! j) = - 1
    \<and> (\<exists>r. fstStore w True tbl (Some ks) (Some compress) = Inr r
          \<and> peek (outFile r) (156 + 4 * j) 4 = [255, 255, 255, 255]
          \<and> int_of_u32 (u_at (outFile r) (156 + 4 * j) 4) = - 1
          \<and> \<not> (0 \<le> int_of_u32 (u_at (outFile r) (156 + 4 * j) 4)
                 \<and> int_of_u32 (u_at (outFile r) (156 + 4 * j) 4) < int C))"
proof -
  have absent: "FindKey (map fst tbl) (ks ! j) = - 1"
    using key(2) by (simp add: FindKey_def FindKey_from_absent)
  obtain r where ok: "fstStore w True tbl (Some ks) (Some compress) = Inr r"
    using fstStore_succeeds [OF guards, where w = w and keyNames = "Some ks"] by blast
  have "peek (outFile r) (156 + 4 * j) 4 =
        peek (initMetaData w (map fst tbl) (Some ks) (Rf_length (snd (hd tbl)))) (156 + 4 * j) 4"
    using key(1) after_head small
    by (intro fstStore_shape(7) [OF ok]) (simp_all add: C_def P_def)
  also have "\<dots> = le_bytes 4 (u32_of_int (FindKey (map fst tbl) (ks ! j)))"
    using key(1) by (rule peek_initMetaData_key)
  finally have bytes: "peek (outFile r) (156 + 4 * j) 4 = [255, 255, 255, 255]"
    by (simp only: absent le_bytes_minus_one)
  then have "int_of_u32 (u_at (outFile r) (156 + 4 * j) 4) = - 1"
    by (simp only: u_at_def int_of_u32_minus_one)
  with absent ok bytes show ?thesis by auto
qed

theorem fstStore_unknown_key_witness:
  "FindKey (map fst raggedTable) ''zz'' = - 1
    \<and> (\<exists>r. fstStore toyWriters True raggedTable (Some [''zz'']) (Some 0) = Inr r
          \<and> peek (outFile r) 156 4 = [255, 255, 255, 255]
          \<and> int_of_u32 (u_at (outFile r) 156 4) = - 1)"
proof -
  have P: "columnIndexOffset toyWriters raggedTable (Some [''zz'']) = 166"
    by (simp add: columnIndexOffset_def toyWriters_def raggedTable_def tellp_def owrite_def toyBytes_def)
  from fstStore_unknown_key [where j = 0 and ks = "[''zz'']" and tbl = raggedTable
      and compress = 0 and w = toyWriters] P
  show ?thesis
    by (auto simp: raggedTable_def knownType_def)
qed

text \<open>
  C10. The number of rows is the length of the first column alone. Whatever the lengths of
  the other columns, a write with a valid compression level, a first column that is not empty
  and columns of known types succeeds, and the file is what the column codecs leave when each
  of them is called with the length of the first column, with the metadata block and the
  column-position index written over it at the end.
\<close>

theorem fstStore_rows_from_first_column:
  fixes tbl :: "(string \<times> SEXP) list" and keyNames :: "string list option" and w :: writers
  defines "nrOfRows \<equiv> Rf_length (snd (hd tbl))"
  assumes "0 \<le> compress" "compress \<le> 100" "tbl \<noteq> []" "nrOfRows \<noteq> 0"
    and "list_all knownType (map snd tbl)"
  shows "\<exists>r header.
     fstStore w True tbl keyNames (Some compress) = Inr r
     \<and> length header = r_metaDataSize r
     \<and> outFile r =
         write_at (write_at
             (content (fold (columnCodec w nrOfRows compress) (map snd tbl)
                             (payloadStart w tbl keyNames))) 0 header)
           ((positions r ! 0 + 2 ^ 64 - 8 * length tbl) mod 2 ^ 64)
           (concat (map (le_bytes 8) (positions r)))"
proof -
  from fstStore_succeeds [OF assms(2-6) [unfolded nrOfRows_def], where w = w and keyNames = keyNames]
  obtain m' pd' where
    len: "length m' = 156 + 4 * (case keyNames of None \<Rightarrow> 0 | Some ks \<Rightarrow> length ks) + 2 * length tbl"
    and ok: "fstStore w True tbl keyNames (Some compress) =
       Inr \<lparr>outFile = write_at (write_at
                 (content (fold (columnCodec w (Rf_length (snd (hd tbl))) compress) (map snd tbl)
                            (payloadStart w tbl keyNames))) 0
                 (poke m' 24 (le_bytes 8 ((pd' ! 0 + 2 ^ 64 - 8 * length tbl) mod 2 ^ 64))))
               ((pd' ! 0 + 2 ^ 64 - 8 * length tbl) mod 2 ^ 64) (concat (map (le_bytes 8) pd')),
          r_keyLength = (case keyNames of None \<Rightarrow> 0 | Some ks \<Rightarrow> length ks),
          r_metaDataSize = 156 + 4 * (case keyNames of None \<Rightarrow> 0 | Some ks \<Rightarrow> length ks)
                             + 2 * length tbl,
          positions = pd'\<rparr>"
    by blast
  show ?thesis
    unfolding ok nrOfRows_def
    apply (rule exI [of _ "\<lparr>outFile = write_at (write_at
                 (content (fold (columnCodec w (Rf_length (snd (hd tbl))) compress) (map snd tbl)
                            (payloadStart w tbl keyNames))) 0
                 (poke m' 24 (le_bytes 8 ((pd' ! 0 + 2 ^ 64 - 8 * length tbl) mod 2 ^ 64))))
               ((pd' ! 0 + 2 ^ 64 - 8 * length tbl) mod 2 ^ 64) (concat (map (le_bytes 8) pd')),
          r_keyLength = (case keyNames of None \<Rightarrow> 0 | Some ks \<Rightarrow> length ks),
          r_metaDataSize = 156 + 4 * (case keyNames of None \<Rightarrow> 0 | Some ks \<Rightarrow> length ks)
                             + 2 * length tbl,
          positions = pd'\<rparr>"])
    apply (rule exI [of _ "poke m' 24 (le_bytes 8 ((pd' ! 0 + 2 ^ 64 - 8 * length tbl) mod 2 ^ 64))"])
    apply (simp add: len)
    done
qed

theorem fstStore_rows_from_first_column_witness:
  "Rf_length (snd (raggedTable ! 1)) \<noteq> Rf_length (snd (hd raggedTable))
   \<and> (\<exists>r header.
     fstStore toyWriters True raggedTable None (Some 0) = Inr r
     \<and> length header = r_metaDataSize r
     \<and> outFile r =
         write_at (write_at
             (content (fold (columnCodec toyWriters (Rf_length (snd (hd raggedTable))) 0)
                             (map snd raggedTable) (payloadStart toyWriters raggedTable None))) 0 header)
           ((positions r ! 0 + 2 ^ 64 - 8 * length raggedTable) mod 2 ^ 64)
           (concat (map (le_bytes 8) (positions r))))"
proof (rule conjI)
  show "Rf_length (snd (raggedTable ! 1)) \<noteq> Rf_length (snd (hd raggedTable))"
    by (simp add: raggedTable_def)
  show "\<exists>r header.
     fstStore toyWriters True raggedTable None (Some 0) = Inr r
     \<and> length header = r_metaDataSize r
     \<and> outFile r =
         write_at (write_at
             (content (fold (columnCodec toyWriters (Rf_length (snd (hd raggedTable))) 0)
                             (map snd raggedTable) (payloadStart toyWriters raggedTable None))) 0 header)
           ((positions r ! 0 + 2 ^ 64 - 8 * length raggedTable) mod 2 ^ 64)
           (concat (map (le_bytes 8) (positions r)))"
    by (rule fstStore_rows_from_first_column) (simp_all add: raggedTable_def knownType_def)
qed


text \<open>
  With the example codecs, what the column codecs leave for the table with a column of three
  rows and a column of one row ends with the three values of the first column and three bytes
  for the second: its one value and two bytes from behind its end.
\<close>

lemma ragged_payload:
  "drop 178 (content (fold (columnCodec toyWriters (Rf_length (snd (hd raggedTable))) 0)
                        (map snd raggedTable) (payloadStart toyWriters raggedTable None)))
     = [1, 2, 3, 9, 238, 238]"
proof -
  let ?S0 = "payloadStart toyWriters raggedTable None"
  have b1: "toyBytes [1, 2, 3] 3 = [1, 2, 3]"
    and b2: "toyBytes [9] 3 = [9, 238, 238]"
    by (simp_all add: toyBytes_def upt_conv_Cons)
  have len: "length (content ?S0) = 178" and pos: "ppos ?S0 = 178"
    by (simp_all add: payloadStart_def toyWriters_def raggedTable_def owrite_def length_write_at
        toyBytes_def)
  have "fold (columnCodec toyWriters (Rf_length (snd (hd raggedTable))) 0) (map snd raggedTable) ?S0
          = owrite (owrite ?S0 [1, 2, 3]) [9, 238, 238]"
  proof -
    have n3: "Suc (Suc (Suc 0)) = 3"
      by simp
    show ?thesis
      by (simp add: columnCodec_def raggedTable_def toyWriters_def n3 b1 b2)
  qed
  then have "content (fold (columnCodec toyWriters (Rf_length (snd (hd raggedTable))) 0)
                        (map snd raggedTable) ?S0)
          = write_at (write_at (content ?S0) 178 [1, 2, 3]) 181 [9, 238, 238]"
    by (simp add: owrite_def pos)
  also have "\<dots> = content ?S0 @ [1, 2, 3, 9, 238, 238]"
    using len by (simp add: write_at_def)
  finally show ?thesis
    using len by simp
qed


section \<open>The readers: the header\<close>

lemma length_iread [simp]: "length (fst (iread jk s n)) = n"
  by (simp add: iread_def Let_def)

lemma iread_enough:
  assumes "\<not> ifail s" "gpos s + n \<le> length (icontent s)"
  shows "iread jk s n = (peek (icontent s) (gpos s) n, s\<lparr>gpos := gpos s + n\<rparr>)"
  using assms by (simp add: iread_def Let_def peek_def)

lemma peek_iread:
  assumes "\<not> ifail s" "gpos s + off + k \<le> length (icontent s)" "off + k \<le> n"
  shows "peek (fst (iread jk s n)) off k = peek (icontent s) (gpos s + off) k"
  using assms by (auto simp: iread_def Let_def peek_def take_drop ac_simps)

text \<open>The header of a file of 24 bytes or more.\<close>

lemma ReadHeader_ifopen:
  assumes "24 \<le> length f"
  shows "ReadHeader jk (ifopen f) =
     (if u_at f 16 8 \<noteq> FST_FILE_ID then
        Inr (0, int_of_u32 (u_at f 0 4), int_of_u32 (u_at f 4 4), u_at f 12 4,
             \<lparr>icontent = f, gpos = 24, ifail = False\<rparr>)
      else if u_at f 8 4 > FST_VERSION then Inl NewerVersion
      else Inr (u_at f 8 4, int_of_u32 (u_at f 0 4), int_of_u32 (u_at f 4 4), u_at f 12 4,
                \<lparr>icontent = f, gpos = 24, ifail = False\<rparr>))"
proof -
  have rd: "iread jk (ifopen f) 24 = (peek f 0 24, \<lparr>icontent = f, gpos = 24, ifail = False\<rparr>)"
    using assms by (simp add: iread_enough ifopen_def)
  have "u_at (peek f 0 24) off k = u_at f off k" if "off + k \<le> 24" for off k
    using that by (simp add: u_at_def peek_peek)
  then show ?thesis
    by (simp add: ReadHeader_def TABLE_META_SIZE_def rd Let_def)
qed

text \<open>
  C7. A file of 24 bytes or more whose field at offset 16 is not the fst file ID is handed to
  the readers of the legacy format, by \<^verbatim>\<open>fstRead\<close> and by \<^verbatim>\<open>fstMeta\<close>, and their result
  is the result. A file with the file ID and a version above \<^verbatim>\<open>FST_VERSION\<close> at offset 8
  is refused by both.
\<close>

theorem header_dispatch:
  assumes "24 \<le> length f"
  shows "(u_at f 16 8 \<noteq> FST_FILE_ID \<longrightarrow>
            fstRead rd (Some f) columnSelection startRow endRow
              = fstRead_v1 rd (Some f) columnSelection startRow endRow
          \<and> fstMeta rd (Some f) = fstMeta_v1 rd (Some f))
       \<and> (u_at f 16 8 = FST_FILE_ID \<and> FST_VERSION < u_at f 8 4 \<longrightarrow>
            fstRead rd (Some f) columnSelection startRow endRow = Inl NewerVersion
          \<and> fstMeta rd (Some f) = Inl NewerVersion)"
  by (simp add: fstRead_def fstMeta_def ReadHeader_ifopen [OF assms])

theorem header_dispatch_witness:
  "fstRead toyReaders (Some legacyFile) None 1 None = fstRead_v1 toyReaders (Some legacyFile) None 1 None
   \<and> fstMeta toyReaders (Some legacyFile) = fstMeta_v1 toyReaders (Some legacyFile)
   \<and> fstRead toyReaders (Some newerFile) None 1 None = Inl NewerVersion
   \<and> fstMeta toyReaders (Some newerFile) = Inl NewerVersion"
proof -
  have "24 \<le> length legacyFile" "u_at legacyFile 16 8 \<noteq> FST_FILE_ID"
    by (simp_all add: legacyFile_def legacyHead_def legacyData_def u_at_def peek_def FST_FILE_ID_def)
  moreover have "24 \<le> length newerFile" "u_at newerFile 16 8 = FST_FILE_ID"
    "FST_VERSION < u_at newerFile 8 4"
    by (simp_all add: newerFile_def u_at_def peek_def FST_FILE_ID_def FST_VERSION_def)
  ultimately show ?thesis
    using header_dispatch [of legacyFile toyReaders None 1 None]
      header_dispatch [of newerFile toyReaders None 1 None]
    by simp
qed

text \<open>
  C4. A file of the current format (the file ID, a version that is supported, counts of
  columns and keys that are not negative and give a metadata block of a size within
  \<^verbatim>\<open>int\<close>), long enough to hold the field \<^verbatim>\<open>nrOfChunks\<close> at offset 152, with a value above
  1 in that field: \<^verbatim>\<open>fstRead\<close> fails with the error of the multiple chunks, whatever the
  column decoders, the selection and the rows asked for.
\<close>

theorem multiple_chunks_refused:
  assumes len: "156 \<le> length f"
    and id: "u_at f 16 8 = FST_FILE_ID"
    and version: "u_at f 8 4 \<le> FST_VERSION" "u_at f 8 4 \<noteq> 0"
    and counts: "0 \<le> int_of_u32 (u_at f 0 4)" "0 \<le> int_of_u32 (u_at f 4 4)"
      "132 + 4 * int_of_u32 (u_at f 4 4) + 2 * int_of_u32 (u_at f 0 4) < 2 ^ 31"
    and chunks: "1 < u_at f 152 4"
  shows "fstRead rd (Some f) columnSelection startRow endRow = Inl MultipleChunks"
proof -
  let ?nc = "int_of_u32 (u_at f 0 4)" and ?kl = "int_of_u32 (u_at f 4 4)"
  let ?s = "\<lparr>icontent = f, gpos = 24, ifail = False\<rparr>"
  let ?d = "nat (132 + 4 * ?kl + 2 * ?nc)"
  have hdr: "ReadHeader (junk rd 0) (ifopen f) = Inr (u_at f 8 4, ?nc, ?kl, u_at f 12 4, ?s)"
    using len id version by (simp add: ReadHeader_ifopen)
  obtain dm s1 where rd: "iread (junk rd 1) ?s ?d = (dm, s1)"
    by (cases "iread (junk rd 1) ?s ?d")
  have dm: "dm = fst (iread (junk rd 1) ?s ?d)"
    using rd by simp
  have meta: "readDataMeta (junk rd 1) ?nc ?kl ?s = Inr (dm, s1)"
    using counts rd by (simp add: readDataMeta_def int_ok_def Let_def)
  have "peek dm 128 4 = peek f 152 4"
    unfolding dm using len counts by (subst peek_iread) simp_all
  moreover have "length dm = ?d"
    by (simp add: dm)
  ultimately have "field dm 128 4 = Some (u_at f 152 4)"
    using counts by (simp add: field_def u_at_def)
  then have "readTableMeta rd ?nc ?kl ?s columnSelection = Inl MultipleChunks"
    using chunks meta by (simp add: readTableMeta_def)
  then show ?thesis
    using version hdr by (simp add: fstRead_def)
qed

theorem multiple_chunks_refused_witness:
  "u_at twoChunkFile 152 4 = 2
   \<and> fstRead toyReaders (Some twoChunkFile) None 1 None = Inl MultipleChunks"
proof -
  have "u_at twoChunkFile 152 4 = 2" "u_at twoChunkFile 16 8 = FST_FILE_ID"
    "u_at twoChunkFile 8 4 = 1" "u_at twoChunkFile 0 4 = 3" "u_at twoChunkFile 4 4 = 1"
    "156 \<le> length twoChunkFile"
    by (simp_all add: twoChunkFile_def u_at_def abcHead_def peek_def FST_FILE_ID_def)
  then show ?thesis
    using multiple_chunks_refused [of twoChunkFile toyReaders None 1 None]
    by (simp add: FST_VERSION_def int_of_u32_def)
qed



section \<open>The readers: the rows\<close>

lemma sint_minus_one:
  fixes w :: "32 word"
  shows "sint (w - 1) = (if sint w = - (2 ^ 31) then 2 ^ 31 - 1 else sint w - 1)"
proof -
  have range: "- (2 ^ 31) \<le> sint w" "sint w < 2 ^ 31"
    using sint_ge [of w] sint_lt [of w] by simp_all
  have eq: "sint (w - 1) = signed_take_bit 31 (sint w - 1)"
    by (simp add: sint_word_ariths)
  show ?thesis
  proof (cases "sint w = - (2 ^ 31)")
    case True
    then show ?thesis
      by (simp add: eq signed_take_bit_eq_take_bit_shift take_bit_eq_mod)
  next
    case False
    with range have "- (2 ^ 31) \<le> sint w - 1" "sint w - 1 < 2 ^ 31"
      by simp_all
    then have "signed_take_bit 31 (sint w - 1) = sint w - 1"
      by (simp add: signed_take_bit_int_eq_self)
    with False show ?thesis
      by (simp add: eq)
  qed
qed

lemma int_of_u32_range: "- (2 ^ 31) \<le> int_of_u32 n" "int_of_u32 n < 2 ^ 31"
proof -
  have "n mod 2 ^ 32 < 2 ^ 32"
    by simp
  then have "int (n mod 2 ^ 32) < 2 ^ 32"
    by (metis of_nat_less_iff of_nat_numeral of_nat_power)
  then show "- (2 ^ 31) \<le> int_of_u32 n" "int_of_u32 n < 2 ^ 31"
    by (auto simp: int_of_u32_def)
qed

lemma rowRange_cases:
  assumes "N < 2 ^ 31"
  shows "rowRange startRow endRow N =
     (if sint startRow < 1 then
        (if sint startRow = - (2 ^ 31) then Inl RowOutOfRange else Inl FromRowNotPositive)
      else if N < sint startRow then Inl RowOutOfRange
      else
        (case endRow of
           None \<Rightarrow> Inr (sint startRow - 1, N - (sint startRow - 1))
         | Some e \<Rightarrow>
             if sint e \<le> sint startRow - 1 then Inl LastRowBeforeFromRow
             else Inr (sint startRow - 1,
                       min (sint e - (sint startRow - 1)) (N - (sint startRow - 1)))))"
  using assms by (auto simp: rowRange_def sint_minus_one Let_def split: option.splits)

text \<open>The vectors of a result have the length that was asked of the decoders.\<close>

lemma decodeColumn_length:
  assumes "decodeColumn rd colType myfile pos firstRow len nrOfRows = Inr (vec, s)"
  shows "Rf_length vec = len"
  using assms by (auto simp: decodeColumn_def split: if_splits option.splits)

lemma decodeColumn_error:
  assumes "decodeColumn rd colType myfile pos firstRow len nrOfRows = Inl e"
  shows "e = CodecError \<or> e = UnknownColumnType"
  using assms by (auto simp: decodeColumn_def split: if_splits option.splits)

lemma readColumns_length:
  assumes "readColumns rd tm firstRow len nrOfRows idx myfile = Inr (names, cols)"
  shows "list_all (\<lambda>c. Rf_length c = nat len) cols"
  using assms
proof (induction idx arbitrary: myfile names cols)
  case Nil
  then show ?case by simp
next
  case (Cons colNr rest)
  from Cons.prems obtain colType vec s' names' cols' where
    dec: "decodeColumn rd colType myfile (u_at (tm_blockPos tm) (8 * nat colNr) 8)
            (nat firstRow) (nat len) (nat nrOfRows) = Inr (vec, s')"
    and rest: "readColumns rd tm firstRow len nrOfRows rest s' = Inr (names', cols')"
    and cols: "cols = vec # cols'"
    by (auto simp: Let_def split: if_splits option.splits sum.splits)
  from decodeColumn_length [OF dec] Cons.IH [OF rest] cols show ?case
    by simp
qed

lemma readColumns_error:
  assumes "readColumns rd tm firstRow len nrOfRows idx myfile = Inl e"
  shows "e \<in> {ColumnOutOfRange, Undefined, CodecError, UnknownColumnType}"
  using assms
proof (induction idx arbitrary: myfile)
  case Nil
  then show ?case by simp
next
  case (Cons colNr rest)
  then show ?case
    by (auto simp: Let_def split: if_splits option.splits sum.splits dest: decodeColumn_error)
qed

lemma readSelected_length:
  assumes "readSelected rd tm firstRow len nrOfRows = Inr r"
  shows "list_all (\<lambda>c. Rf_length c = nat len) (resultColumns r)"
proof -
  from assms obtain names cols where
    cols: "readColumns rd tm firstRow len nrOfRows (tm_colIndex tm) (tm_file tm) = Inr (names, cols)"
    and r: "resultColumns r = cols"
    by (auto simp: readSelected_def Let_def resultColumns_def split: sum.splits if_splits)
  from readColumns_length [OF cols] r show ?thesis
    by simp
qed

lemma readSelected_error:
  assumes "readSelected rd tm firstRow len nrOfRows = Inl e"
  shows "e \<in> {ColumnOutOfRange, Undefined, CodecError, UnknownColumnType}"
  using assms readColumns_error [of rd tm firstRow len nrOfRows "tm_colIndex tm" "tm_file tm" e]
  by (auto simp: readSelected_def Let_def split: sum.splits if_splits)

text \<open>\<^verbatim>\<open>fstRead\<close> from the check of the rows on.\<close>

lemma fstRead_rows:
  assumes "ReadHeader (junk rd 0) (ifopen f) = Inr (version, nrOfCols, keyLength, n, myfile)"
    and "version \<noteq> 0"
    and "readTableMeta rd nrOfCols keyLength myfile columnSelection = Inr tm"
  shows "fstRead rd (Some f) columnSelection startRow endRow =
     (case rowRange startRow endRow (chunkRows0 tm) of
        Inl e \<Rightarrow> Inl e
      | Inr (firstRow, len) \<Rightarrow> readSelected rd tm firstRow len (chunkRows0 tm))"
  using assms by (simp add: fstRead_def Let_def)

text \<open>The example file up to the check of the rows.\<close>

lemma toy_chars: "char_of (97::nat) = CHR ''a''" "char_of (98::nat) = CHR ''b''"
  "char_of (99::nat) = CHR ''c''"
  by code_simp+

lemma abcFile_header:
  "ReadHeader (junk toyReaders 0) (ifopen abcFile) =
     Inr (1, 3, 1, 1, \<lparr>icontent = abcFile, gpos = 24, ifail = False\<rparr>)"
  by (simp add: ReadHeader_def iread_def ifopen_def TABLE_META_SIZE_def u_at_def peek_def
      int_of_u32_def FST_FILE_ID_def FST_VERSION_def abcFile_def abcHead_def abcTail_def)

lemma abcFile_meta:
  "readTableMeta toyReaders 3 1 \<lparr>icontent = abcFile, gpos = 24, ifail = False\<rparr> None = Inr abcMeta"
  by (simp add: readTableMeta_def readDataMeta_def int_ok_def field_def iread_def u_at_def peek_def
      TABLE_META_SIZE_def toyReaders_def toyStrings_def byte_at_def toy_chars abcMeta_def
      abcFile_def abcHead_def abcTail_def upt_conv_Cons Let_def)

lemma abcMeta_rows: "chunkRows0 abcMeta = 3"
  by (simp add: chunkRows0_def abcMeta_def u_at_def peek_def int_of_u32_def
      abcFile_def abcHead_def abcTail_def)

text \<open>
  C3. When \<^verbatim>\<open>fstRead\<close> has read the header and the metadata of a file of the current format
  and has resolved the selection, with \<open>N\<close> the number of rows of the file and \<open>a\<close> the
  argument \<open>fromRow\<close>: \<open>a < 1\<close> fails (with the message of the positive value; at the
  least \<^verbatim>\<open>int\<close> with that of the range), \<open>a > N\<close> fails with the message of the range; for
  \<open>1 \<le> a \<le> N\<close> a \<open>toRow\<close> that is not above \<open>a - 1\<close> fails, and otherwise the selected
  columns are read from row \<open>a - 1\<close> on, \<open>N - (a - 1)\<close> rows of them or, with a \<open>toRow\<close>,
  the lesser of \<open>toRow - (a - 1)\<close> and \<open>N - (a - 1)\<close>. Every vector of a result has that
  many rows: a \<open>toRow\<close> behind the end of the table is cut to the end.
\<close>

theorem fstRead_row_range:
  fixes startRow :: "32 word" and endRow :: "32 word option"
  defines "a \<equiv> sint startRow"
  assumes hdr: "ReadHeader (junk rd 0) (ifopen f) = Inr (version, nrOfCols, keyLength, n, myfile)"
    and current: "version \<noteq> 0"
    and tm: "readTableMeta rd nrOfCols keyLength myfile columnSelection = Inr tm"
  defines "N \<equiv> chunkRows0 tm"
    and "R \<equiv> fstRead rd (Some f) columnSelection startRow endRow"
  shows "(a < 1 \<longrightarrow> R = Inl (if a = - (2 ^ 31) then RowOutOfRange else FromRowNotPositive))
    \<and> (1 \<le> a \<and> N < a \<longrightarrow> R = Inl RowOutOfRange)
    \<and> (1 \<le> a \<and> a \<le> N \<longrightarrow>
         (case endRow of
            None \<Rightarrow> R = readSelected rd tm (a - 1) (N - (a - 1)) N
          | Some e \<Rightarrow>
              if a - 1 < sint e
              then R = readSelected rd tm (a - 1) (min (sint e - (a - 1)) (N - (a - 1))) N
              else R = Inl LastRowBeforeFromRow))
    \<and> (\<forall>r. R = Inr r \<longrightarrow>
          1 \<le> a \<and> a \<le> N
          \<and> list_all (\<lambda>c. int (Rf_length c) =
                 (case endRow of None \<Rightarrow> N | Some e \<Rightarrow> min (sint e) N) - (a - 1))
               (resultColumns r))"
proof -
  have R: "R = (case rowRange startRow endRow N of
                  Inl e \<Rightarrow> Inl e
                | Inr (firstRow, len) \<Rightarrow> readSelected rd tm firstRow len N)"
    unfolding R_def N_def using hdr current tm by (rule fstRead_rows)
  have "N < 2 ^ 31"
    unfolding N_def chunkRows0_def by (rule int_of_u32_range)
  note rr = rowRange_cases [OF this, of startRow, folded a_def]
  have p1: "a < 1 \<longrightarrow> R = Inl (if a = - (2 ^ 31) then RowOutOfRange else FromRowNotPositive)"
    by (simp add: R rr)
  have p2: "1 \<le> a \<and> N < a \<longrightarrow> R = Inl RowOutOfRange"
    by (simp add: R rr)
  have p3: "1 \<le> a \<and> a \<le> N \<longrightarrow>
         (case endRow of
            None \<Rightarrow> R = readSelected rd tm (a - 1) (N - (a - 1)) N
          | Some e \<Rightarrow>
              if a - 1 < sint e
              then R = readSelected rd tm (a - 1) (min (sint e - (a - 1)) (N - (a - 1))) N
              else R = Inl LastRowBeforeFromRow)"
    by (simp add: R rr split: option.splits)
  have p4: "1 \<le> a \<and> a \<le> N
          \<and> list_all (\<lambda>c. int (Rf_length c) =
                 (case endRow of None \<Rightarrow> N | Some e \<Rightarrow> min (sint e) N) - (a - 1))
               (resultColumns r)" if ok: "R = Inr r" for r
  proof -
    from ok p1 p2 have range: "1 \<le> a" "a \<le> N"
      by (auto split: if_splits)
    show ?thesis
    proof (cases endRow)
      case None
      with p3 range ok have "readSelected rd tm (a - 1) (N - (a - 1)) N = Inr r"
        by simp
      from readSelected_length [OF this] range None show ?thesis
        by (auto simp: list_all_iff)
    next
      case (Some e)
      with p3 range ok have e: "a - 1 < sint e"
        and "readSelected rd tm (a - 1) (min (sint e - (a - 1)) (N - (a - 1))) N = Inr r"
        by (auto split: if_splits)
      from readSelected_length [OF this(2)] range e Some show ?thesis
        by (auto simp: list_all_iff min_def)
    qed
  qed
  from p1 p2 p3 p4 show ?thesis
    by blast
qed

theorem fstRead_row_range_witness:
  "chunkRows0 abcMeta = 3
   \<and> fstRead toyReaders (Some abcFile) None 0 None = Inl FromRowNotPositive
   \<and> fstRead toyReaders (Some abcFile) None 4 None = Inl RowOutOfRange
   \<and> fstRead toyReaders (Some abcFile) None 2 (Some 1) = Inl LastRowBeforeFromRow
   \<and> fstRead toyReaders (Some abcFile) None 2 (Some 10) = readSelected toyReaders abcMeta 1 2 3"
  using fstRead_row_range [OF abcFile_header _ abcFile_meta, of 0 None]
    fstRead_row_range [OF abcFile_header _ abcFile_meta, of 4 None]
    fstRead_row_range [OF abcFile_header _ abcFile_meta, of 2 "Some 1"]
    fstRead_row_range [OF abcFile_header _ abcFile_meta, of 2 "Some 10"]
  by (simp add: abcMeta_rows)

text \<open>
  C2, as the code has it. In a read of a file of the current format that has come to the
  check of the rows with \<open>fromRow\<close> in \<open>[1, N]\<close> and a \<open>toRow\<close>, the error of the last row
  is raised exactly when \<open>toRow < fromRow\<close>. With \<open>toRow = fromRow\<close>, and with any
  \<open>toRow\<close> from \<open>fromRow\<close> on, the selected columns are read, from row \<open>fromRow - 1\<close> on
  and \<open>min toRow N - (fromRow - 1)\<close> rows of them.
\<close>

theorem lastRow_error_iff:
  fixes startRow toRow :: "32 word"
  assumes hdr: "ReadHeader (junk rd 0) (ifopen f) = Inr (version, nrOfCols, keyLength, n, myfile)"
    and current: "version \<noteq> 0"
    and tm: "readTableMeta rd nrOfCols keyLength myfile columnSelection = Inr tm"
    and range: "1 \<le> sint startRow" "sint startRow \<le> chunkRows0 tm"
  shows "(fstRead rd (Some f) columnSelection startRow (Some toRow) = Inl LastRowBeforeFromRow
           \<longleftrightarrow> sint toRow < sint startRow)
    \<and> (sint startRow \<le> sint toRow \<longrightarrow>
          fstRead rd (Some f) columnSelection startRow (Some toRow) =
            readSelected rd tm (sint startRow - 1)
              (min (sint toRow) (chunkRows0 tm) - (sint startRow - 1)) (chunkRows0 tm))"
proof -
  let ?N = "chunkRows0 tm" and ?a = "sint startRow"
  let ?R = "fstRead rd (Some f) columnSelection startRow (Some toRow)"
  have R: "?R = (case rowRange startRow (Some toRow) ?N of
                  Inl e \<Rightarrow> Inl e
                | Inr (firstRow, len) \<Rightarrow> readSelected rd tm firstRow len ?N)"
    using hdr current tm by (rule fstRead_rows)
  have "?N < 2 ^ 31"
    unfolding chunkRows0_def by (rule int_of_u32_range)
  note rr = rowRange_cases [OF this, of startRow "Some toRow"]
  have below: "?R = Inl LastRowBeforeFromRow" if "sint toRow < ?a"
    using that range by (simp add: R rr)
  have from_on: "?R = readSelected rd tm (?a - 1) (min (sint toRow) ?N - (?a - 1)) ?N"
    if "?a \<le> sint toRow"
    using that range by (simp add: R rr min_def)
  have "?R \<noteq> Inl LastRowBeforeFromRow" if "?a \<le> sint toRow"
    using readSelected_error [of rd tm "?a - 1" "min (sint toRow) ?N - (?a - 1)" ?N LastRowBeforeFromRow]
      from_on [OF that]
    by auto
  with below from_on show ?thesis
    by (meson not_le)
qed

theorem lastRow_error_iff_witness:
  "fstRead toyReaders (Some abcFile) None 2 (Some 1) = Inl LastRowBeforeFromRow
   \<and> fstRead toyReaders (Some abcFile) None 2 (Some 2) = readSelected toyReaders abcMeta 1 1 3
   \<and> fstRead toyReaders (Some abcFile) None 2 (Some 2) \<noteq> Inl LastRowBeforeFromRow"
  using lastRow_error_iff [OF abcFile_header _ abcFile_meta, of 2 1]
    lastRow_error_iff [OF abcFile_header _ abcFile_meta, of 2 2]
  by (auto simp: abcMeta_rows)



text \<open>The same for the reader of the legacy format.\<close>

lemma decodeColumn_v1_error:
  assumes "decodeColumn_v1 rd colType myfile pos firstRow len nrOfRows = Inl e"
  shows "e = CodecError \<or> e = UnknownColumnType"
  using assms by (auto simp: decodeColumn_v1_def split: if_splits option.splits)

lemma readColumns_v1_error:
  assumes "readColumns_v1 rd h colNames firstRow len nrOfRows idx myfile = Inl e"
  shows "e \<in> {ColumnOutOfRange, CodecError, UnknownColumnType}"
  using assms
proof (induction idx arbitrary: myfile)
  case Nil
  then show ?case by simp
next
  case (Cons colNr rest)
  then show ?case
    by (auto simp: Let_def split: if_splits sum.splits dest: decodeColumn_v1_error)
qed

lemma fstRead_v1_lastRow_error_iff:
  fixes startRow toRow :: "32 word"
  assumes hdr: "readLegacyHeader rd (ifopen f) = Inr h"
    and names: "fdsReadCharVec_v1 rd (lh_file h) (legacyNamesOffset h) 0
                  (nat (lh_nrOfCols h)) (nat (lh_nrOfCols h)) = Some (names, myfile5)"
    and sel: "(case columnSelection of
                 None \<Rightarrow> Inr (map int [0..<nat (lh_nrOfCols h)])
               | Some sel \<Rightarrow> resolveSelection_v1 (map names [0..<nat (lh_nrOfCols h)])
                              (nat (lh_nrOfCols h)) sel 0) = Inr colIndex"
    and range: "1 \<le> sint startRow" "sint startRow \<le> int_of_u32 (u_at (lh_allBlockPos h) 0 8)"
  shows "fstRead_v1 rd (Some f) columnSelection startRow (Some toRow) = Inl LastRowBeforeFromRow
           \<longleftrightarrow> sint toRow < sint startRow"
proof -
  let ?N = "int_of_u32 (u_at (lh_allBlockPos h) 0 8)" and ?a = "sint startRow"
  let ?R = "fstRead_v1 rd (Some f) columnSelection startRow (Some toRow)"
  let ?colNames = "map names [0..<nat (lh_nrOfCols h)]"
  have "?N < 2 ^ 31"
    by (rule int_of_u32_range)
  note rr = rowRange_cases [OF this, of startRow "Some toRow"]
  have below: "?R = Inl LastRowBeforeFromRow" if "sint toRow < ?a"
    using that range hdr names sel by (simp add: fstRead_v1_def Let_def rr)
  have "?R \<noteq> Inl LastRowBeforeFromRow" if "?a \<le> sint toRow"
  proof -
    let ?len = "min (sint toRow - (?a - 1)) (?N - (?a - 1))"
    have row: "rowRange startRow (Some toRow) ?N = Inr (?a - 1, ?len)"
      using that range by (simp add: rr)
    show ?thesis
    proof (cases "readColumns_v1 rd h ?colNames (?a - 1) ?len ?N colIndex myfile5")
      case (Inl e)
      with readColumns_v1_error [OF Inl] show ?thesis
        using hdr names sel row by (auto simp: fstRead_v1_def Let_def)
    next
      case (Inr res)
      then show ?thesis
        using hdr names sel row by (auto simp: fstRead_v1_def Let_def split: prod.splits)
    qed
  qed
  with below show ?thesis
    by (meson not_le)
qed


section \<open>Reads of the example files\<close>


lemmas toy_defs = toyReaders_def toyStrings_def toyInts_def byte_at_def toy_chars
lemmas abc_defs = abcFile_def flippedFile_def abcHead_def abcTail_def
lemmas legacy_defs = legacyFile_def legacySwapped_def legacyEqual_def legacyHead_def legacyData_def
lemmas field_defs = u_at_def peek_def field_def int_of_u32_def int_of_u16_def short_at_def

lemma abc_row_2:
  "readSelected toyReaders abcMeta 1 1 3 =
     Inr \<lparr>rlist = [(''keyNames'', RStrVec [''a'']), (''found'', RInt 1),
                   (''resTable'', RTable [INTSXP [2], INTSXP [5], INTSXP [8]]),
                   (''selectedNames'', RStrVec [''a'', ''b'', ''c''])],
          warnings = []\<rparr>"
  by (simp add: readSelected_def abcMeta_def keyColPos_def decodeColumn_def toy_defs abc_defs
      field_defs upt_conv_Cons Let_def)

text \<open>
  C2 as it is stated fails where \<open>toRow = fromRow\<close>: the second row of the example file is
  read, and no error is raised.
\<close>

theorem toRow_equal_fromRow_is_read:
  "sint (2 :: 32 word) \<le> sint (2 :: 32 word)
   \<and> fstRead toyReaders (Some abcFile) None 2 (Some 2) =
       Inr \<lparr>rlist = [(''keyNames'', RStrVec [''a'']), (''found'', RInt 1),
                     (''resTable'', RTable [INTSXP [2], INTSXP [5], INTSXP [8]]),
                     (''selectedNames'', RStrVec [''a'', ''b'', ''c''])],
            warnings = []\<rparr>"
proof -
  have "rowRange 2 (Some 2) 3 = Inr (1, 1)"
    by (simp add: rowRange_def)
  then show ?thesis
    using fstRead_rows [OF abcFile_header _ abcFile_meta, of 2 "Some 2"]
    by (simp add: abcMeta_rows abc_row_2)
qed



section \<open>The column positions\<close>

text \<open>
  The reader of the legacy format accepts a header only if no column position is below the
  one before it; it accepts equal positions.
\<close>

lemma readLegacyHeader_positions:
  assumes "readLegacyHeader rd myfile = Inr h"
  shows "list_all (\<lambda>colCount. u_at (lh_allBlockPos h) (8 * (colCount - 1)) 8
                                 \<le> u_at (lh_allBlockPos h) (8 * colCount) 8)
           [2..<nat (lh_nrOfCols h) + 1]"
  using assms
  by (auto simp: readLegacyHeader_def Let_def list_all_iff list_ex_iff
      split: prod.splits if_splits)

lemma legacy_swapped_rejected:
  "fstRead toyReaders (Some legacySwapped) None 1 None = Inl LegacyBlockPosError"
  by (simp add: fstRead_def fstRead_v1_def ReadHeader_def readLegacyHeader_def iread_def ifopen_def
      TABLE_META_SIZE_def FST_FILE_ID_def toy_defs legacy_defs field_defs upt_conv_Cons Let_def)

lemma legacy_equal_accepted:
  "fstRead toyReaders (Some legacyEqual) None 1 None =
     Inr \<lparr>rlist = [(''keyNames'', RStrVec [''a'']),
                   (''resTable'', RTable [INTSXP [1, 2, 3], INTSXP [1, 2, 3]]),
                   (''selectedNames'', RStrVec [''a'', ''b''])],
          warnings = [BetaFormat]\<rparr>"
  by (simp add: fstRead_def fstRead_v1_def ReadHeader_def readLegacyHeader_def iread_def ifopen_def
      TABLE_META_SIZE_def FST_FILE_ID_def legacyNamesOffset_def legacyKeys_def rowRange_def
      decodeColumn_v1_def toy_defs legacy_defs field_defs upt_conv_Cons Let_def)



text \<open>
  C1 fails on the reader of the current format, which compares no column positions. In
  \<open>flippedFile\<close> one bit of the column-position index of \<open>abcFile\<close> is flipped and the
  first position lies above the second; the file is read without an error, and the first
  column of the result holds values of the second and third columns of the table.
\<close>

theorem flipped_index_is_read:
  "u_at flippedFile 177 8 < u_at flippedFile 169 8
   \<and> fstRead toyReaders (Some flippedFile) None 1 None =
       Inr \<lparr>rlist = [(''keyNames'', RStrVec [''a'']), (''found'', RInt 1),
                     (''resTable'', RTable [INTSXP [5, 6, 7], INTSXP [4, 5, 6], INTSXP [7, 8, 9]]),
                     (''selectedNames'', RStrVec [''a'', ''b'', ''c''])],
            warnings = []\<rparr>"
  by (simp add: fstRead_def ReadHeader_def iread_def ifopen_def TABLE_META_SIZE_def FST_FILE_ID_def
      FST_VERSION_def readTableMeta_def readDataMeta_def int_ok_def rowRange_def chunkRows0_def
      readSelected_def keyColPos_def decodeColumn_def toy_defs abc_defs field_defs upt_conv_Cons Let_def)

lemma abcFile_is_read:
  "fstRead toyReaders (Some abcFile) None 1 None =
       Inr \<lparr>rlist = [(''keyNames'', RStrVec [''a'']), (''found'', RInt 1),
                     (''resTable'', RTable [INTSXP [1, 2, 3], INTSXP [4, 5, 6], INTSXP [7, 8, 9]]),
                     (''selectedNames'', RStrVec [''a'', ''b'', ''c''])],
            warnings = []\<rparr>"
  by (simp add: fstRead_def ReadHeader_def iread_def ifopen_def TABLE_META_SIZE_def FST_FILE_ID_def
      FST_VERSION_def readTableMeta_def readDataMeta_def int_ok_def rowRange_def chunkRows0_def
      readSelected_def keyColPos_def decodeColumn_def toy_defs abc_defs field_defs upt_conv_Cons Let_def)



section \<open>The warning of the legacy format\<close>

lemma fstRead_v1_warns:
  assumes "fstRead_v1 rd fileName columnSelection startRow endRow = Inr r"
  shows "warnings r = [BetaFormat]"
  using assms
  by (auto simp: fstRead_v1_def Let_def split: option.splits sum.splits prod.splits if_splits)

lemma fstMeta_v1_never_warns:
  assumes "fstMeta_v1 rd fileName = Inr r"
  shows "warnings r = []"
  using assms
  by (auto simp: fstMeta_v1_def Let_def split: option.splits sum.splits prod.splits if_splits)



lemma legacy_read_warns:
  "fstRead toyReaders (Some legacyFile) None 1 None =
     Inr \<lparr>rlist = [(''keyNames'', RStrVec [''a'']),
                   (''resTable'', RTable [INTSXP [1, 2, 3], INTSXP [4, 5, 6]]),
                   (''selectedNames'', RStrVec [''a'', ''b''])],
          warnings = [BetaFormat]\<rparr>"
  by (simp add: fstRead_def fstRead_v1_def ReadHeader_def readLegacyHeader_def iread_def ifopen_def
      TABLE_META_SIZE_def FST_FILE_ID_def legacyNamesOffset_def legacyKeys_def rowRange_def
      decodeColumn_v1_def toy_defs legacy_defs field_defs upt_conv_Cons Let_def)

text \<open>
  C8 fails on \<^verbatim>\<open>fstMeta\<close>: the metadata of the example file of the legacy format are
  returned, and no warning is raised.
\<close>

theorem legacy_meta_without_warning:
  "fstMeta toyReaders (Some legacyFile) =
     Inr \<lparr>rlist = [(''nrOfCols'', RInt 2), (''nrOfRows'', RInt 3), (''fstVersion'', RInt 0),
                   (''colTypeVec'', RIntVec [2, 2]), (''keyColIndex'', RIntVec [0]),
                   (''keyLength'', RInt 1), (''keyNames'', RStrVec [''a'']),
                   (''colNames'', RStrVec [''a'', ''b'']), (''nrOfChunks'', RInt 1)],
          warnings = []\<rparr>"
  by (simp add: fstMeta_def fstMeta_v1_def ReadHeader_def readLegacyHeader_def iread_def ifopen_def
      TABLE_META_SIZE_def FST_FILE_ID_def legacyNamesOffset_def legacyKeys_def
      toy_defs legacy_defs field_defs upt_conv_Cons Let_def)


end
